theory Spec2Isabelle
  imports Main
begin

section \<open>Outcomes of operations that may throw\<close>

text \<open>
  A TypeScript function either returns a value or throws \<open>new Error(message)\<close>.
  Functions that mutate an object return the outcome together with the object as it is
  left behind, so that the state at the moment of a throw is part of the model.
\<close>

datatype 'a outcome = Thrown string | Returned 'a

section \<open>Strings that may carry tokens\<close>

text \<open>
  Modelled from the spec: the token registry (\<open>Token\<close>, \<open>Lazy\<close>, the encoding of a token
  into a string, \<open>isGeneratedWhenNeededMarker\<close>, \<open>Token.isUnresolved\<close>,
  \<open>Token.asString\<close>) is not under src/. The spec describes a token as an opaque handle
  with an identifier that stands for a value not yet known, encoded losslessly into a
  string where a literal string is expected, never colliding with user content. A string
  of the program is therefore a list of pieces, each a literal character or an encoded
  token. The tokens that \<open>Resource\<close> itself mints or tests for have a constructor of
  their own; every other token carries its identifier and the deploy-time value it
  stands for.
\<close>

datatype token =
    GENERATE_IF_NEEDED
  | UNDEFINED
  | LAZY_PHYSICAL_NAME
  | DEFERRED nat string

datatype piece = Chr char | Tok token

type_synonym tstring = "piece list"

definition lit :: "string \<Rightarrow> tstring" where
  "lit s = map Chr s"

fun isTok :: "piece \<Rightarrow> bool" where
  "isTok (Tok t) = True"
| "isTok (Chr c) = False"

text \<open>
  Modelled from the spec: \<open>Token.isUnresolved(s)\<close>, a string that still contains an
  unresolved token.
\<close>

definition isUnresolved :: "tstring \<Rightarrow> bool" where
  "isUnresolved s = list_ex isTok s"

text \<open>
  Modelled from the spec: \<open>isGeneratedWhenNeededMarker(s)\<close>, the physical name is the
  "generate if needed" marker \<open>PhysicalName.GENERATE_IF_NEEDED\<close>.
\<close>

definition isGeneratedWhenNeededMarker :: "tstring \<Rightarrow> bool" where
  "isGeneratedWhenNeededMarker s = (s = [Tok GENERATE_IF_NEEDED])"

text \<open>Modelled from the spec: \<open>Token.asString(undefined)\<close>, the string-encoded token for undefined.\<close>

definition Token_asString_undefined :: tstring where
  "Token_asString_undefined = [Tok UNDEFINED]"

text \<open>
  Modelled from the spec: \<open>Lazy.stringValue({ produce: () => this._physicalName })\<close>, the
  string-encoded token whose producer reads the private physical name of the resource.
\<close>

definition Lazy_stringValue_physicalName :: tstring where
  "Lazy_stringValue_physicalName = [Tok LAZY_PHYSICAL_NAME]"

text \<open>
  Modelled from the spec: the token-aware comparison of two strings
  (\<open>Token.compareStrings\<close>, not under src/). Two differently encoded tokens may stand for
  the same deploy-time value, so the identifier of a token is not compared, only the
  value it stands for; literal characters are compared as they are.
\<close>

fun samePiece :: "piece \<Rightarrow> piece \<Rightarrow> bool" where
  "samePiece (Chr c) (Chr d) = (c = d)"
| "samePiece (Tok (DEFERRED i v)) (Tok (DEFERRED j w)) = (v = w)"
| "samePiece (Tok s) (Tok t) = (s = t)"
| "samePiece p q = False"

definition compareStrings :: "tstring \<Rightarrow> tstring \<Rightarrow> bool" where
  "compareStrings a b = list_all2 samePiece a b"

section \<open>Stacks, constructs and resolution contexts\<close>

text \<open>
  The fields of \<open>Stack\<close> that \<open>Resource\<close> reads: \<open>account\<close>, \<open>region\<close> and the
  \<open>environment\<close> string. A construct is known by what \<open>node.path\<close> and \<open>Stack.of\<close>
  return for it. A resolution context carries the scope that asks.
\<close>

record Stack =
  stackAccount :: tstring
  stackRegion :: tstring
  environment :: tstring

record Construct =
  nodePath :: string
  stackOf :: Stack

record IResolveContext =
  scope :: Construct

section \<open>Resource\<close>

record ResourceEnvironment =
  account :: tstring
  region :: tstring

record ResourceProps =
  propsPhysicalName :: "tstring option"
  propsAccount :: "tstring option"
  propsRegion :: "tstring option"

text \<open>
  \<open>class Resource extends Construct\<close>. \<open>privPhysicalName\<close> is the private field
  \<open>_physicalName\<close> and \<open>allowCrossEnvironment\<close> the private field
  \<open>_allowCrossEnvironment\<close>.
\<close>

record Resource = Construct +
  stack :: Stack
  env :: ResourceEnvironment
  physicalName :: tstring
  privPhysicalName :: "tstring option"
  allowCrossEnvironment :: bool

text \<open>JavaScript truthiness of a \<open>string | undefined\<close>: \<open>undefined\<close> and \<open>""\<close> are falsy.\<close>

definition truthy :: "tstring option \<Rightarrow> bool" where
  "truthy v = (case v of None \<Rightarrow> False | Some s \<Rightarrow> s \<noteq> [])"

text \<open>The guard \<open>v && p(v)\<close>.\<close>

definition andThen :: "tstring option \<Rightarrow> (tstring \<Rightarrow> bool) \<Rightarrow> bool" where
  "andThen v p = (case v of None \<Rightarrow> False | Some s \<Rightarrow> s \<noteq> [] \<and> p s)"

text \<open>The nullish default \<open>v ?? d\<close>.\<close>

definition orDefault :: "tstring option \<Rightarrow> tstring \<Rightarrow> tstring" where
  "orDefault v d = (case v of None \<Rightarrow> d | Some s \<Rightarrow> s)"

text \<open>
  The constructor. \<open>this\<close> is the construct that \<open>super(scope, id)\<close> has made. The triple
  holds \<open>this._physicalName\<close>, \<open>this._allowCrossEnvironment\<close> and the local variable
  \<open>physicalName\<close> after the three branches.
\<close>

definition Resource_constructor :: "Construct \<Rightarrow> ResourceProps \<Rightarrow> Resource" where
  "Resource_constructor this props =
     (let stk = stackOf this;
          e = \<lparr>account = orDefault (propsAccount props) (stackAccount stk),
               region = orDefault (propsRegion props) (stackRegion stk)\<rparr>;
          (priv, allow, physName) =
            (if andThen (propsPhysicalName props) isGeneratedWhenNeededMarker
             then (None, True, Some Lazy_stringValue_physicalName)
             else if andThen (propsPhysicalName props) (\<lambda>s. \<not> isUnresolved s)
             then (propsPhysicalName props, True, propsPhysicalName props)
             else (propsPhysicalName props, False, propsPhysicalName props))
      in \<lparr>nodePath = nodePath this, stackOf = stackOf this,
          stack = stk, env = e,
          physicalName = orDefault physName Token_asString_undefined,
          privPhysicalName = priv,
          allowCrossEnvironment = allow\<rparr>)"

definition crossEnvironmentError :: "string \<Rightarrow> string" where
  "crossEnvironmentError p =
     ''Cannot use resource '' @ [CHR 0x27] @ p @ [CHR 0x27] @ '' in a cross-environment fashion, ''
     @ ''the resource'' @ [CHR 0x27] @ ''s physical name must be explicit set or use `PhysicalName.GENERATE_IF_NEEDED`''"

text \<open>
  \<open>_enableCrossEnvironment()\<close>. The method \<open>this.generatePhysicalName()\<close> calls
  \<open>generatePhysicalName(this)\<close> of \<open>./private/physical-name-generator\<close>, which is not
  under src/: it is the parameter \<open>generatePhysicalName\<close>. It receives the resource as
  it is at the call and either returns a string or throws; a throw leaves the method
  before the assignment.
\<close>

definition enableCrossEnvironment ::
    "(Resource \<Rightarrow> tstring outcome) \<Rightarrow> Resource \<Rightarrow> unit outcome \<times> Resource" where
  "enableCrossEnvironment generatePhysicalName this =
     (if \<not> allowCrossEnvironment this
      then (Thrown (crossEnvironmentError (nodePath this)), this)
      else if \<not> truthy (privPhysicalName this)
      then (case generatePhysicalName this of
              Thrown e \<Rightarrow> (Thrown e, this)
            | Returned name \<Rightarrow> (Returned (), this\<lparr>privPhysicalName := Some name\<rparr>))
      else (Returned (), this))"

text \<open>The producer of the token that the constructor mints for the marker: \<open>() => this._physicalName\<close>.\<close>

definition producePhysicalName :: "Resource \<Rightarrow> tstring option" where
  "producePhysicalName this = privPhysicalName this"

text \<open>The producer inside \<open>getResourceNameAttribute(nameAttr)\<close>.\<close>

definition nameAttributeProduce ::
    "(Resource \<Rightarrow> tstring outcome) \<Rightarrow> tstring \<Rightarrow> IResolveContext \<Rightarrow> Resource
      \<Rightarrow> tstring outcome \<times> Resource" where
  "nameAttributeProduce gen nameAttr context this =
     (let consumingStack = stackOf (scope context) in
      if environment (stack this) \<noteq> environment consumingStack
      then (case enableCrossEnvironment gen this of
              (Thrown e, this') \<Rightarrow> (Thrown e, this')
            | (Returned u, this') \<Rightarrow> (Returned (physicalName this'), this'))
      else (Returned nameAttr, this))"

text \<open>
  The resolver inside \<open>getResourceArnAttribute(arnAttr, arnComponents)\<close>.
  \<open>Stack.formatArn\<close> is not under src/: it is the parameter \<open>formatArn\<close>.
\<close>

definition arnAttributeResolve ::
    "(Resource \<Rightarrow> tstring outcome) \<Rightarrow> (Stack \<Rightarrow> 'arn \<Rightarrow> tstring) \<Rightarrow> tstring \<Rightarrow> 'arn
      \<Rightarrow> IResolveContext \<Rightarrow> Resource \<Rightarrow> tstring outcome \<times> Resource" where
  "arnAttributeResolve gen formatArn arnAttr arnComponents context this =
     (let consumingStack = stackOf (scope context) in
      if environment (stack this) \<noteq> environment consumingStack
      then (case enableCrossEnvironment gen this of
              (Thrown e, this') \<Rightarrow> (Thrown e, this')
            | (Returned u, this') \<Rightarrow> (Returned (formatArn (stack this') arnComponents), this'))
      else (Returned arnAttr, this))"

section \<open>The physical-name states of the spec\<close>

text \<open>
  The four lifecycle states of the spec, read off the fields of a resource: no allowance
  is Unset; with the allowance, a falsy private name is Deferred-if-needed; a private
  name held behind the lazy token of the marker branch is Generated, any other is
  Explicit.
\<close>

datatype PhysicalNameState = Unset | DeferredIfNeeded | Generated | Explicit

definition physicalNameState :: "Resource \<Rightarrow> PhysicalNameState" where
  "physicalNameState this =
     (if \<not> allowCrossEnvironment this then Unset
      else if \<not> truthy (privPhysicalName this) then DeferredIfNeeded
      else if physicalName this = Lazy_stringValue_physicalName then Generated
      else Explicit)"

text \<open>
  The environment of a referencing scope as a \<open>ResourceEnvironment\<close>, and equality of
  environments as the spec words it: token-aware on account and on region.
\<close>

definition scopeEnvironment :: "Construct \<Rightarrow> ResourceEnvironment" where
  "scopeEnvironment c = \<lparr>account = stackAccount (stackOf c), region = stackRegion (stackOf c)\<rparr>"

definition spec_sameEnvironment :: "ResourceEnvironment \<Rightarrow> ResourceEnvironment \<Rightarrow> bool" where
  "spec_sameEnvironment a b =
     (compareStrings (account a) (account b) \<and> compareStrings (region a) (region b))"

text \<open>
  The conflicting physical name of the spec: the caller supplies both an explicit name
  (literal text) and the marker that asks for generation, in the one \<open>physicalName\<close>
  that \<open>ResourceProps\<close> has.
\<close>

definition spec_conflictingPhysicalName :: "tstring \<Rightarrow> bool" where
  "spec_conflictingPhysicalName n =
     (list_ex (\<lambda>p. \<not> isTok p) n \<and> list_ex (\<lambda>p. p = Tok GENERATE_IF_NEEDED) n)"

text \<open>
  Modelled from the spec: the resolution of a lazy value (\<open>Lazy.stringValue({ produce })\<close>
  and the resolver are not under src/). The spec says that \<open>resolve(context)\<close> invokes the
  computation on each resolution call, with the context of that call, and keeps no
  result from one call for another.
\<close>

definition Lazy_resolve :: "('c \<Rightarrow> 's \<Rightarrow> 'a outcome \<times> 's) \<Rightarrow> 'c \<Rightarrow> 's \<Rightarrow> 'a outcome \<times> 's" where
  "Lazy_resolve produce context s = produce context s"

section \<open>RDS utilities\<close>

text \<open>
  \<open>RemovalPolicy\<close> is an enum of \<open>@aws-cdk/core\<close>; the code names its member \<open>RETAIN\<close>.
\<close>

datatype RemovalPolicy = DESTROY | RETAIN | SNAPSHOT

definition defaultDeletionProtection :: "bool option \<Rightarrow> RemovalPolicy option \<Rightarrow> bool option" where
  "defaultDeletionProtection deletionProtection removalPolicy =
     (if deletionProtection \<noteq> None then deletionProtection
      else (if removalPolicy = Some RETAIN then Some True else None))"

text \<open>
  A role is an object: one that the caller supplies, or the one that
  \<open>new iam.Role(scope, id, ...)\<close> creates under the given id. Creating a role and granting
  a role access to a bucket are the effects of \<open>setupS3ImportExport\<close>, recorded in order.
\<close>

datatype Role = Supplied nat | Created string

datatype 'b effect = NewRole string | GrantRead 'b Role | GrantReadWrite 'b Role

record 'b DatabaseS3ImportExportProps =
  s3ImportRole :: "Role option"
  s3ImportBuckets :: "'b list option"
  s3ExportRole :: "Role option"
  s3ExportBuckets :: "'b list option"

text \<open>\<open>buckets && buckets.length > 0\<close>.\<close>

definition nonEmpty :: "'b list option \<Rightarrow> bool" where
  "nonEmpty bs = (case bs of None \<Rightarrow> False | Some l \<Rightarrow> length l > 0)"

definition bucketsOf :: "'b list option \<Rightarrow> 'b list" where
  "bucketsOf bs = (case bs of None \<Rightarrow> [] | Some l \<Rightarrow> l)"

text \<open>\<open>(combineRoles && other) ? other : new iam.Role(scope, id, ...)\<close>: the role and the effects.\<close>

definition reuseOrCreate :: "bool option \<Rightarrow> Role option \<Rightarrow> string \<Rightarrow> Role \<times> 'b effect list" where
  "reuseOrCreate combineRoles other ident =
     (case other of
        Some r \<Rightarrow> if combineRoles = Some True then (r, []) else (Created ident, [NewRole ident])
      | None \<Rightarrow> (Created ident, [NewRole ident]))"

definition importError :: string where
  "importError = ''Only one of s3ImportRole or s3ImportBuckets must be specified, not both.''"

definition exportError :: string where
  "exportError = ''Only one of s3ExportRole or s3ExportBuckets must be specified, not both.''"

text \<open>
  The result is the returned object \<open>{ s3ImportRole, s3ExportRole }\<close> as a pair, or the
  error thrown, with the effects that have happened by then.
\<close>

definition setupS3ImportExport ::
    "'b DatabaseS3ImportExportProps \<Rightarrow> bool option
      \<Rightarrow> (Role option \<times> Role option) outcome \<times> 'b effect list" where
  "setupS3ImportExport props combineRoles =
     (let importRole0 = s3ImportRole props;
          exportRole0 = s3ExportRole props
      in
      if nonEmpty (s3ImportBuckets props) \<and> s3ImportRole props \<noteq> None
      then (Thrown importError, [])
      else
        let (importRole1, effects1) =
              (if nonEmpty (s3ImportBuckets props)
               then (let (r, created) = reuseOrCreate combineRoles exportRole0 ''S3ImportRole''
                     in (Some r, created @ map (\<lambda>b. GrantRead b r) (bucketsOf (s3ImportBuckets props))))
               else (importRole0, []))
        in
        if nonEmpty (s3ExportBuckets props) \<and> s3ExportRole props \<noteq> None
        then (Thrown exportError, effects1)
        else
          let (exportRole1, effects2) =
                (if nonEmpty (s3ExportBuckets props)
                 then (let (r, created) = reuseOrCreate combineRoles importRole1 ''S3ExportRole''
                       in (Some r, created @ map (\<lambda>b. GrantReadWrite b r) (bucketsOf (s3ExportBuckets props))))
                 else (exportRole0, []))
          in (Returned (importRole1, exportRole1), effects1 @ effects2))"

text \<open>The number of roles that a run has created.\<close>

fun isNewRole :: "'b effect \<Rightarrow> bool" where
  "isNewRole (NewRole i) = True"
| "isNewRole e = False"

definition rolesCreated :: "'b effect list \<Rightarrow> nat" where
  "rolesCreated fx = length (filter isNewRole fx)"

section \<open>Deletion protection\<close>

text \<open>
  C10. \<open>defaultDeletionProtection\<close> returns the given \<open>deletionProtection\<close> whenever it is
  defined; when it is undefined the result is \<open>true\<close> if the removal policy is
  \<open>RemovalPolicy.RETAIN\<close> and undefined otherwise.
\<close>

theorem defaultDeletionProtection_spec:
  "defaultDeletionProtection (Some d) removalPolicy = Some d
   \<and> defaultDeletionProtection None (Some RETAIN) = Some True
   \<and> (removalPolicy \<noteq> Some RETAIN \<longrightarrow> defaultDeletionProtection None removalPolicy = None)"
  by (simp add: defaultDeletionProtection_def)

theorem defaultDeletionProtection_spec_witness:
  "defaultDeletionProtection (Some False) (Some RETAIN) = Some False
   \<and> defaultDeletionProtection None (Some RETAIN) = Some True
   \<and> Some DESTROY \<noteq> Some RETAIN
   \<and> defaultDeletionProtection None (Some DESTROY) = None"
  using defaultDeletionProtection_spec [of False "Some RETAIN"]
        defaultDeletionProtection_spec [of False "Some DESTROY"]
  by simp

section \<open>S3 import and export roles\<close>

lemma filter_isNewRole_grants:
  "filter isNewRole (map (\<lambda>b. GrantRead b r) l) = []"
  "filter isNewRole (map (\<lambda>b. GrantReadWrite b r) l) = []"
  by (induction l) auto

lemma setupS3ImportExport_throws:
  "(nonEmpty (s3ImportBuckets props) \<and> s3ImportRole props \<noteq> None \<longrightarrow>
      setupS3ImportExport props combineRoles = (Thrown importError, []))
   \<and> (\<not> (nonEmpty (s3ImportBuckets props) \<and> s3ImportRole props \<noteq> None)
       \<and> nonEmpty (s3ExportBuckets props) \<and> s3ExportRole props \<noteq> None \<longrightarrow>
      fst (setupS3ImportExport props combineRoles) = Thrown exportError)
   \<and> (\<not> (nonEmpty (s3ImportBuckets props) \<and> s3ImportRole props \<noteq> None)
       \<and> \<not> (nonEmpty (s3ExportBuckets props) \<and> s3ExportRole props \<noteq> None) \<longrightarrow>
      (\<exists>v. fst (setupS3ImportExport props combineRoles) = Returned v))"
  by (auto simp: setupS3ImportExport_def Let_def split: prod.splits)

lemma setupS3ImportExport_no_buckets:
  "\<not> nonEmpty (s3ImportBuckets props) \<and> \<not> nonEmpty (s3ExportBuckets props) \<longrightarrow>
     setupS3ImportExport props combineRoles
       = (Returned (s3ImportRole props, s3ExportRole props), [])"
  by (auto simp: setupS3ImportExport_def Let_def split: prod.splits)

lemma setupS3ImportExport_reuse_export_role:
  "nonEmpty (s3ImportBuckets props) \<and> s3ImportRole props = None
   \<and> \<not> nonEmpty (s3ExportBuckets props) \<and> s3ExportRole props = Some r \<longrightarrow>
     setupS3ImportExport props (Some True)
       = (Returned (Some r, Some r),
          map (\<lambda>b. GrantRead b r) (bucketsOf (s3ImportBuckets props)))"
  by (simp add: setupS3ImportExport_def Let_def reuseOrCreate_def)

lemma setupS3ImportExport_reuse_import_role:
  "\<not> nonEmpty (s3ImportBuckets props) \<and> s3ImportRole props = Some r
   \<and> nonEmpty (s3ExportBuckets props) \<and> s3ExportRole props = None \<longrightarrow>
     setupS3ImportExport props (Some True)
       = (Returned (Some r, Some r),
          map (\<lambda>b. GrantReadWrite b r) (bucketsOf (s3ExportBuckets props)))"
  by (simp add: setupS3ImportExport_def Let_def reuseOrCreate_def)

lemma setupS3ImportExport_reuse_created_role:
  "nonEmpty (s3ImportBuckets props) \<and> s3ImportRole props = None
   \<and> nonEmpty (s3ExportBuckets props) \<and> s3ExportRole props = None \<longrightarrow>
     setupS3ImportExport props (Some True)
       = (Returned (Some (Created ''S3ImportRole''), Some (Created ''S3ImportRole'')),
          NewRole ''S3ImportRole''
          # map (\<lambda>b. GrantRead b (Created ''S3ImportRole'')) (bucketsOf (s3ImportBuckets props))
          @ map (\<lambda>b. GrantReadWrite b (Created ''S3ImportRole''))
              (bucketsOf (s3ExportBuckets props)))"
  by (simp add: setupS3ImportExport_def Let_def reuseOrCreate_def)

lemma setupS3ImportExport_import_only:
  "nonEmpty (s3ImportBuckets props) \<and> s3ImportRole props = None
   \<and> \<not> nonEmpty (s3ExportBuckets props) \<and> s3ExportRole props = None \<longrightarrow>
     setupS3ImportExport props (Some True)
       = (Returned (Some (Created ''S3ImportRole''), None),
          NewRole ''S3ImportRole''
          # map (\<lambda>b. GrantRead b (Created ''S3ImportRole'')) (bucketsOf (s3ImportBuckets props)))"
  by (simp add: setupS3ImportExport_def Let_def reuseOrCreate_def)

lemma setupS3ImportExport_export_only:
  "\<not> nonEmpty (s3ImportBuckets props) \<and> s3ImportRole props = None
   \<and> nonEmpty (s3ExportBuckets props) \<and> s3ExportRole props = None \<longrightarrow>
     setupS3ImportExport props (Some True)
       = (Returned (None, Some (Created ''S3ExportRole'')),
          NewRole ''S3ExportRole''
          # map (\<lambda>b. GrantReadWrite b (Created ''S3ExportRole''))
              (bucketsOf (s3ExportBuckets props)))"
  by (simp add: setupS3ImportExport_def Let_def reuseOrCreate_def)

lemma setupS3ImportExport_one_role:
  "setupS3ImportExport props (Some True) = (Returned (i, e), fx) \<longrightarrow> rolesCreated fx \<le> 1"
  by (auto simp: setupS3ImportExport_def Let_def reuseOrCreate_def rolesCreated_def
      filter_isNewRole_grants split: prod.splits if_splits option.splits)

text \<open>
  C9. \<open>setupS3ImportExport\<close> throws the error "Only one of ... must be specified, not
  both." exactly when a non-empty list of import buckets comes with an import role, or a
  non-empty list of export buckets with an export role (the import check first);
  otherwise it returns. When both bucket lists are absent or empty, the roles of the
  props are returned unchanged and nothing else happens. When \<open>combineRoles\<close> is true
  and the function returns: a role supplied for the export is the role returned for
  both directions when import buckets are handled, and it is the role that is granted
  read access; a role supplied for the import is likewise the one returned for both
  directions and granted read and write access when export buckets are handled; with
  both lists non-empty and no role supplied, the one role \<open>S3ImportRole\<close> is created,
  returned for both directions and given all grants; with one list only and no role
  supplied, one role is created for that direction and the other stays undefined. In
  no case is a second role created.
\<close>

theorem setupS3ImportExport_spec:
  "(nonEmpty (s3ImportBuckets props) \<and> s3ImportRole props \<noteq> None \<longrightarrow>
      setupS3ImportExport props combineRoles = (Thrown importError, []))
   \<and> (\<not> (nonEmpty (s3ImportBuckets props) \<and> s3ImportRole props \<noteq> None)
       \<and> nonEmpty (s3ExportBuckets props) \<and> s3ExportRole props \<noteq> None \<longrightarrow>
      fst (setupS3ImportExport props combineRoles) = Thrown exportError)
   \<and> (\<not> (nonEmpty (s3ImportBuckets props) \<and> s3ImportRole props \<noteq> None)
       \<and> \<not> (nonEmpty (s3ExportBuckets props) \<and> s3ExportRole props \<noteq> None) \<longrightarrow>
      (\<exists>v. fst (setupS3ImportExport props combineRoles) = Returned v))
   \<and> (\<not> nonEmpty (s3ImportBuckets props) \<and> \<not> nonEmpty (s3ExportBuckets props) \<longrightarrow>
      setupS3ImportExport props combineRoles
        = (Returned (s3ImportRole props, s3ExportRole props), []))
   \<and> (nonEmpty (s3ImportBuckets props) \<and> s3ImportRole props = None
       \<and> \<not> nonEmpty (s3ExportBuckets props) \<and> s3ExportRole props = Some r \<longrightarrow>
      setupS3ImportExport props (Some True)
        = (Returned (Some r, Some r),
           map (\<lambda>b. GrantRead b r) (bucketsOf (s3ImportBuckets props))))
   \<and> (\<not> nonEmpty (s3ImportBuckets props) \<and> s3ImportRole props = Some r
       \<and> nonEmpty (s3ExportBuckets props) \<and> s3ExportRole props = None \<longrightarrow>
      setupS3ImportExport props (Some True)
        = (Returned (Some r, Some r),
           map (\<lambda>b. GrantReadWrite b r) (bucketsOf (s3ExportBuckets props))))
   \<and> (nonEmpty (s3ImportBuckets props) \<and> s3ImportRole props = None
       \<and> nonEmpty (s3ExportBuckets props) \<and> s3ExportRole props = None \<longrightarrow>
      setupS3ImportExport props (Some True)
        = (Returned (Some (Created ''S3ImportRole''), Some (Created ''S3ImportRole'')),
           NewRole ''S3ImportRole''
           # map (\<lambda>b. GrantRead b (Created ''S3ImportRole'')) (bucketsOf (s3ImportBuckets props))
           @ map (\<lambda>b. GrantReadWrite b (Created ''S3ImportRole''))
               (bucketsOf (s3ExportBuckets props))))
   \<and> (nonEmpty (s3ImportBuckets props) \<and> s3ImportRole props = None
       \<and> \<not> nonEmpty (s3ExportBuckets props) \<and> s3ExportRole props = None \<longrightarrow>
      setupS3ImportExport props (Some True)
        = (Returned (Some (Created ''S3ImportRole''), None),
           NewRole ''S3ImportRole''
           # map (\<lambda>b. GrantRead b (Created ''S3ImportRole'')) (bucketsOf (s3ImportBuckets props))))
   \<and> (\<not> nonEmpty (s3ImportBuckets props) \<and> s3ImportRole props = None
       \<and> nonEmpty (s3ExportBuckets props) \<and> s3ExportRole props = None \<longrightarrow>
      setupS3ImportExport props (Some True)
        = (Returned (None, Some (Created ''S3ExportRole'')),
           NewRole ''S3ExportRole''
           # map (\<lambda>b. GrantReadWrite b (Created ''S3ExportRole''))
               (bucketsOf (s3ExportBuckets props))))
   \<and> (setupS3ImportExport props (Some True) = (Returned (i, e), fx) \<longrightarrow> rolesCreated fx \<le> 1)"
  by (intro conjI)
    (rule setupS3ImportExport_throws [of props combineRoles, THEN conjunct1]
      setupS3ImportExport_throws [of props combineRoles, THEN conjunct2, THEN conjunct1]
      setupS3ImportExport_throws [of props combineRoles, THEN conjunct2, THEN conjunct2]
      setupS3ImportExport_no_buckets setupS3ImportExport_reuse_export_role
      setupS3ImportExport_reuse_import_role setupS3ImportExport_reuse_created_role
      setupS3ImportExport_import_only setupS3ImportExport_export_only
      setupS3ImportExport_one_role)+

theorem setupS3ImportExport_spec_witness:
  "(let both = \<lparr>s3ImportRole = None, s3ImportBuckets = Some [1, 2 :: nat],
                s3ExportRole = None, s3ExportBuckets = Some [3]\<rparr>;
        clash = \<lparr>s3ImportRole = Some (Supplied 7), s3ImportBuckets = Some [1 :: nat],
                 s3ExportRole = None, s3ExportBuckets = None\<rparr>;
        clashExport = \<lparr>s3ImportRole = None, s3ImportBuckets = Some [1 :: nat],
                       s3ExportRole = Some (Supplied 8), s3ExportBuckets = Some [2]\<rparr>;
        none = \<lparr>s3ImportRole = Some (Supplied 7), s3ImportBuckets = Some ([] :: nat list),
                s3ExportRole = Some (Supplied 8), s3ExportBuckets = None\<rparr>;
        supplied = \<lparr>s3ImportRole = None, s3ImportBuckets = Some [1, 2 :: nat],
                    s3ExportRole = Some (Supplied 7), s3ExportBuckets = None\<rparr>;
        role = Created ''S3ImportRole''
    in nonEmpty (s3ImportBuckets clash) \<and> s3ImportRole clash \<noteq> None
       \<and> setupS3ImportExport clash None = (Thrown importError, [])
       \<and> nonEmpty (s3ExportBuckets clashExport) \<and> s3ExportRole clashExport \<noteq> None
       \<and> fst (setupS3ImportExport clashExport (Some True)) = Thrown exportError
       \<and> \<not> nonEmpty (s3ImportBuckets none) \<and> \<not> nonEmpty (s3ExportBuckets none)
       \<and> setupS3ImportExport none (Some True)
           = (Returned (Some (Supplied 7), Some (Supplied 8)), [])
       \<and> setupS3ImportExport supplied (Some True)
           = (Returned (Some (Supplied 7), Some (Supplied 7)),
              [GrantRead 1 (Supplied 7), GrantRead 2 (Supplied 7)])
       \<and> setupS3ImportExport both (Some True)
           = (Returned (Some role, Some role),
              [NewRole ''S3ImportRole'', GrantRead 1 role, GrantRead 2 role,
               GrantReadWrite 3 role]))"
proof -
  let ?both = "\<lparr>s3ImportRole = None, s3ImportBuckets = Some [1, 2 :: nat],
                s3ExportRole = None, s3ExportBuckets = Some [3]\<rparr>"
  let ?clash = "\<lparr>s3ImportRole = Some (Supplied 7), s3ImportBuckets = Some [1 :: nat],
                 s3ExportRole = None, s3ExportBuckets = None\<rparr>"
  let ?clashExport = "\<lparr>s3ImportRole = None, s3ImportBuckets = Some [1 :: nat],
                       s3ExportRole = Some (Supplied 8), s3ExportBuckets = Some [2]\<rparr>"
  let ?none = "\<lparr>s3ImportRole = Some (Supplied 7), s3ImportBuckets = Some ([] :: nat list),
                s3ExportRole = Some (Supplied 8), s3ExportBuckets = None\<rparr>"
  let ?supplied = "\<lparr>s3ImportRole = None, s3ImportBuckets = Some [1, 2 :: nat],
                    s3ExportRole = Some (Supplied 7), s3ExportBuckets = None\<rparr>"
  let ?role = "Created ''S3ImportRole''"
  have h1: "nonEmpty (s3ImportBuckets ?clash) \<and> s3ImportRole ?clash \<noteq> None"
    by (simp add: nonEmpty_def)
  have c1: "setupS3ImportExport ?clash None = (Thrown importError, [])"
    by (rule setupS3ImportExport_spec [of ?clash None, THEN conjunct1, THEN mp, OF h1])
  have h2: "\<not> (nonEmpty (s3ImportBuckets ?clashExport) \<and> s3ImportRole ?clashExport \<noteq> None)
            \<and> nonEmpty (s3ExportBuckets ?clashExport) \<and> s3ExportRole ?clashExport \<noteq> None"
    by (simp add: nonEmpty_def)
  have c2: "fst (setupS3ImportExport ?clashExport (Some True)) = Thrown exportError"
    by (rule setupS3ImportExport_spec [of ?clashExport "Some True",
          THEN conjunct2, THEN conjunct1, THEN mp, OF h2])
  have h3: "\<not> nonEmpty (s3ImportBuckets ?none) \<and> \<not> nonEmpty (s3ExportBuckets ?none)"
    by (simp add: nonEmpty_def)
  have c3: "setupS3ImportExport ?none (Some True)
               = (Returned (Some (Supplied 7), Some (Supplied 8)), [])"
    using setupS3ImportExport_spec [of ?none "Some True",
          THEN conjunct2, THEN conjunct2, THEN conjunct2, THEN conjunct1, THEN mp, OF h3]
    by simp
  have h4: "nonEmpty (s3ImportBuckets ?supplied) \<and> s3ImportRole ?supplied = None
       \<and> \<not> nonEmpty (s3ExportBuckets ?supplied) \<and> s3ExportRole ?supplied = Some (Supplied 7)"
    by (simp add: nonEmpty_def)
  have c4: "setupS3ImportExport ?supplied (Some True)
           = (Returned (Some (Supplied 7), Some (Supplied 7)),
              [GrantRead 1 (Supplied 7), GrantRead 2 (Supplied 7)])"
    using setupS3ImportExport_spec [of ?supplied "Some True" "Supplied 7",
          THEN conjunct2, THEN conjunct2, THEN conjunct2, THEN conjunct2, THEN conjunct1,
          THEN mp, OF h4]
    by (simp add: bucketsOf_def)
  have h5: "nonEmpty (s3ImportBuckets ?both) \<and> s3ImportRole ?both = None
       \<and> nonEmpty (s3ExportBuckets ?both) \<and> s3ExportRole ?both = None"
    by (simp add: nonEmpty_def)
  have c5: "setupS3ImportExport ?both (Some True)
           = (Returned (Some ?role, Some ?role),
              [NewRole ''S3ImportRole'', GrantRead 1 ?role, GrantRead 2 ?role,
               GrantReadWrite 3 ?role])"
    using setupS3ImportExport_spec [of ?both "Some True",
          THEN conjunct2, THEN conjunct2, THEN conjunct2, THEN conjunct2, THEN conjunct2,
          THEN conjunct2, THEN conjunct1, THEN mp, OF h5]
    by (simp add: bucketsOf_def)
  show ?thesis
    unfolding Let_def
    by (intro conjI) (rule c1 c2 c3 c4 c5 h1 [THEN conjunct1] h1 [THEN conjunct2]
        h2 [THEN conjunct2, THEN conjunct1] h2 [THEN conjunct2, THEN conjunct2]
        h3 [THEN conjunct1] h3 [THEN conjunct2])+
qed

section \<open>The constructor and the physical-name states\<close>

lemma marker_is_unresolved:
  "isGeneratedWhenNeededMarker n \<Longrightarrow> isUnresolved n \<and> n \<noteq> []"
  by (simp add: isGeneratedWhenNeededMarker_def isUnresolved_def)

lemma lazy_token_is_unresolved:
  "isUnresolved Lazy_stringValue_physicalName"
  by (simp add: isUnresolved_def Lazy_stringValue_physicalName_def)

lemma conflicting_is_unresolved:
  "spec_conflictingPhysicalName n \<Longrightarrow>
     n \<noteq> [] \<and> isUnresolved n \<and> \<not> isGeneratedWhenNeededMarker n"
proof -
  assume "spec_conflictingPhysicalName n"
  then have lit: "\<exists>p \<in> set n. \<not> isTok p" and mark: "Tok GENERATE_IF_NEEDED \<in> set n"
    by (simp_all add: spec_conflictingPhysicalName_def list_ex_iff)
  have "isTok (Tok GENERATE_IF_NEEDED)" by simp
  with mark have "isUnresolved n"
    unfolding isUnresolved_def list_ex_iff by blast
  moreover have "n \<noteq> []" using mark by auto
  moreover have "\<not> isGeneratedWhenNeededMarker n"
    using lit by (auto simp: isGeneratedWhenNeededMarker_def)
  ultimately show ?thesis by simp
qed

lemma constructor_marker:
  assumes "propsPhysicalName props = Some n" and "isGeneratedWhenNeededMarker n"
  shows "Resource_constructor this props =
     \<lparr>nodePath = nodePath this, stackOf = stackOf this, stack = stackOf this,
      env = \<lparr>account = orDefault (propsAccount props) (stackAccount (stackOf this)),
             region = orDefault (propsRegion props) (stackRegion (stackOf this))\<rparr>,
      physicalName = Lazy_stringValue_physicalName, privPhysicalName = None,
      allowCrossEnvironment = True\<rparr>"
  using assms marker_is_unresolved [OF assms(2)]
  by (simp add: Resource_constructor_def Let_def andThen_def orDefault_def)

lemma constructor_concrete:
  assumes "propsPhysicalName props = Some n" and "n \<noteq> []" and "\<not> isUnresolved n"
  shows "Resource_constructor this props =
     \<lparr>nodePath = nodePath this, stackOf = stackOf this, stack = stackOf this,
      env = \<lparr>account = orDefault (propsAccount props) (stackAccount (stackOf this)),
             region = orDefault (propsRegion props) (stackRegion (stackOf this))\<rparr>,
      physicalName = n, privPhysicalName = Some n, allowCrossEnvironment = True\<rparr>"
  using assms marker_is_unresolved [of n]
  by (auto simp: Resource_constructor_def Let_def andThen_def orDefault_def)

lemma constructor_no_name:
  assumes "propsPhysicalName props = None"
  shows "Resource_constructor this props =
     \<lparr>nodePath = nodePath this, stackOf = stackOf this, stack = stackOf this,
      env = \<lparr>account = orDefault (propsAccount props) (stackAccount (stackOf this)),
             region = orDefault (propsRegion props) (stackRegion (stackOf this))\<rparr>,
      physicalName = Token_asString_undefined, privPhysicalName = None,
      allowCrossEnvironment = False\<rparr>"
  using assms by (simp add: Resource_constructor_def Let_def andThen_def orDefault_def)

lemma constructor_other:
  assumes "propsPhysicalName props = Some n"
    and "n = [] \<or> (isUnresolved n \<and> \<not> isGeneratedWhenNeededMarker n)"
  shows "Resource_constructor this props =
     \<lparr>nodePath = nodePath this, stackOf = stackOf this, stack = stackOf this,
      env = \<lparr>account = orDefault (propsAccount props) (stackAccount (stackOf this)),
             region = orDefault (propsRegion props) (stackRegion (stackOf this))\<rparr>,
      physicalName = n, privPhysicalName = Some n, allowCrossEnvironment = False\<rparr>"
  using assms by (auto simp: Resource_constructor_def Let_def andThen_def orDefault_def)

text \<open>
  C2, as amended. Passing the marker as the physical name gives the state
  Deferred-if-needed, with cross-environment references allowed. Passing a concrete
  (token-free) name that is not the empty string gives the state Explicit, with
  cross-environment references allowed. Passing no name, a name that contains unresolved
  tokens and is not the marker, or the empty string gives the state Unset, with
  cross-environment references not allowed.
\<close>

theorem constructor_physical_name_states:
  "(propsPhysicalName props = Some n \<and> isGeneratedWhenNeededMarker n \<longrightarrow>
      physicalNameState (Resource_constructor this props) = DeferredIfNeeded
      \<and> allowCrossEnvironment (Resource_constructor this props))
   \<and> (propsPhysicalName props = Some n \<and> n \<noteq> [] \<and> \<not> isUnresolved n \<longrightarrow>
      physicalNameState (Resource_constructor this props) = Explicit
      \<and> allowCrossEnvironment (Resource_constructor this props)
      \<and> privPhysicalName (Resource_constructor this props) = Some n)
   \<and> (propsPhysicalName props = None
        \<or> (propsPhysicalName props = Some n \<and> isUnresolved n \<and> \<not> isGeneratedWhenNeededMarker n)
        \<or> propsPhysicalName props = Some [] \<longrightarrow>
      physicalNameState (Resource_constructor this props) = Unset
      \<and> \<not> allowCrossEnvironment (Resource_constructor this props))"
proof (intro conjI impI)
  assume "propsPhysicalName props = Some n \<and> isGeneratedWhenNeededMarker n"
  then have r: "Resource_constructor this props =
     \<lparr>nodePath = nodePath this, stackOf = stackOf this, stack = stackOf this,
      env = \<lparr>account = orDefault (propsAccount props) (stackAccount (stackOf this)),
             region = orDefault (propsRegion props) (stackRegion (stackOf this))\<rparr>,
      physicalName = Lazy_stringValue_physicalName, privPhysicalName = None,
      allowCrossEnvironment = True\<rparr>"
    using constructor_marker by blast
  show "physicalNameState (Resource_constructor this props) = DeferredIfNeeded"
    by (simp add: r physicalNameState_def truthy_def)
  show "allowCrossEnvironment (Resource_constructor this props)"
    by (simp add: r)
next
  assume a: "propsPhysicalName props = Some n \<and> n \<noteq> [] \<and> \<not> isUnresolved n"
  then have r: "Resource_constructor this props =
     \<lparr>nodePath = nodePath this, stackOf = stackOf this, stack = stackOf this,
      env = \<lparr>account = orDefault (propsAccount props) (stackAccount (stackOf this)),
             region = orDefault (propsRegion props) (stackRegion (stackOf this))\<rparr>,
      physicalName = n, privPhysicalName = Some n, allowCrossEnvironment = True\<rparr>"
    using constructor_concrete by blast
  have "n \<noteq> Lazy_stringValue_physicalName"
    using a lazy_token_is_unresolved by auto
  then show "physicalNameState (Resource_constructor this props) = Explicit"
    using a by (simp add: r physicalNameState_def truthy_def)
  show "allowCrossEnvironment (Resource_constructor this props)"
    by (simp add: r)
  show "privPhysicalName (Resource_constructor this props) = Some n"
    by (simp add: r)
next
  assume a: "propsPhysicalName props = None
        \<or> (propsPhysicalName props = Some n \<and> isUnresolved n \<and> \<not> isGeneratedWhenNeededMarker n)
        \<or> propsPhysicalName props = Some []"
  then have "\<not> allowCrossEnvironment (Resource_constructor this props)"
    using constructor_no_name [of props this] constructor_other [of props n this]
      constructor_other [of props "[]" this]
    by auto
  then show "physicalNameState (Resource_constructor this props) = Unset"
    and "\<not> allowCrossEnvironment (Resource_constructor this props)"
    by (simp_all add: physicalNameState_def)
qed

text \<open>
  C2 as stated fails at the empty string: it is an explicit, concrete, token-free value
  of \<open>physicalName\<close>, and the constructor leaves the resource in the state Unset, with
  cross-environment references not allowed.
\<close>

theorem constructor_empty_name_counterexample:
  "\<not> isUnresolved (lit [])
   \<and> physicalNameState (Resource_constructor
        \<lparr>nodePath = ''App/A/Bucket'',
         stackOf = \<lparr>stackAccount = lit ''111'', stackRegion = lit ''eu-west-1'',
                    environment = lit ''aws://111/eu-west-1''\<rparr>\<rparr>
        \<lparr>propsPhysicalName = Some (lit []), propsAccount = None, propsRegion = None\<rparr>) = Unset
   \<and> \<not> allowCrossEnvironment (Resource_constructor
        \<lparr>nodePath = ''App/A/Bucket'',
         stackOf = \<lparr>stackAccount = lit ''111'', stackRegion = lit ''eu-west-1'',
                    environment = lit ''aws://111/eu-west-1''\<rparr>\<rparr>
        \<lparr>propsPhysicalName = Some (lit []), propsAccount = None, propsRegion = None\<rparr>)"
  by (simp add: Resource_constructor_def Let_def physicalNameState_def andThen_def lit_def
      isUnresolved_def)

text \<open>
  C8, as amended. Constructing a resource with the empty string as physical name gives
  the same resource as constructing it with no physical name, except for two fields: the
  \<open>physicalName\<close> property is the empty string (with no name it is the string-encoded
  token for undefined) and the private name is the empty string (with no name it is
  undefined). The cross-environment allowance is false in both, so a call of
  \<open>_enableCrossEnvironment()\<close> fails.
\<close>

theorem constructor_empty_name:
  "propsPhysicalName props = Some [] \<longrightarrow>
     Resource_constructor this props =
       (Resource_constructor this (props\<lparr>propsPhysicalName := None\<rparr>))
         \<lparr>physicalName := [], privPhysicalName := Some []\<rparr>
     \<and> physicalName (Resource_constructor this (props\<lparr>propsPhysicalName := None\<rparr>))
         = Token_asString_undefined
     \<and> \<not> allowCrossEnvironment (Resource_constructor this props)
     \<and> \<not> allowCrossEnvironment (Resource_constructor this (props\<lparr>propsPhysicalName := None\<rparr>))
     \<and> fst (enableCrossEnvironment gen (Resource_constructor this props))
         = Thrown (crossEnvironmentError (nodePath this))"
  by (simp add: Resource_constructor_def Let_def andThen_def orDefault_def enableCrossEnvironment_def)

text \<open>
  C8 as stated fails: with the empty string the \<open>physicalName\<close> property is the empty
  string, not the string-encoded token for undefined, and the resource is not the one
  that a construction with no name gives.
\<close>

theorem constructor_empty_name_property_counterexample:
  "physicalName (Resource_constructor
        \<lparr>nodePath = ''App/A/Bucket'',
         stackOf = \<lparr>stackAccount = lit ''111'', stackRegion = lit ''eu-west-1'',
                    environment = lit ''aws://111/eu-west-1''\<rparr>\<rparr>
        \<lparr>propsPhysicalName = Some (lit []), propsAccount = None, propsRegion = None\<rparr>) = lit []
   \<and> lit [] \<noteq> Token_asString_undefined
   \<and> Resource_constructor
        \<lparr>nodePath = ''App/A/Bucket'',
         stackOf = \<lparr>stackAccount = lit ''111'', stackRegion = lit ''eu-west-1'',
                    environment = lit ''aws://111/eu-west-1''\<rparr>\<rparr>
        \<lparr>propsPhysicalName = Some (lit []), propsAccount = None, propsRegion = None\<rparr>
     \<noteq> Resource_constructor
        \<lparr>nodePath = ''App/A/Bucket'',
         stackOf = \<lparr>stackAccount = lit ''111'', stackRegion = lit ''eu-west-1'',
                    environment = lit ''aws://111/eu-west-1''\<rparr>\<rparr>
        \<lparr>propsPhysicalName = None, propsAccount = None, propsRegion = None\<rparr>"
  by (simp add: Resource_constructor_def Let_def andThen_def orDefault_def lit_def
      Token_asString_undefined_def)

text \<open>
  C6, as amended. The constructor has no check for a conflicting physical name and no
  path that fails. A physical name that holds both literal text and the marker is
  accepted: construction returns a resource that keeps the name as it is and has no
  cross-environment allowance. The error comes later, from \<open>_enableCrossEnvironment()\<close>,
  when the resource is referenced across environments.
\<close>

theorem constructor_accepts_conflicting_name:
  "spec_conflictingPhysicalName n \<and> propsPhysicalName props = Some n \<longrightarrow>
     Resource_constructor this props =
       \<lparr>nodePath = nodePath this, stackOf = stackOf this, stack = stackOf this,
        env = \<lparr>account = orDefault (propsAccount props) (stackAccount (stackOf this)),
               region = orDefault (propsRegion props) (stackRegion (stackOf this))\<rparr>,
        physicalName = n, privPhysicalName = Some n, allowCrossEnvironment = False\<rparr>
     \<and> enableCrossEnvironment gen (Resource_constructor this props)
         = (Thrown (crossEnvironmentError (nodePath this)), Resource_constructor this props)"
proof
  assume a: "spec_conflictingPhysicalName n \<and> propsPhysicalName props = Some n"
  then have r: "Resource_constructor this props =
       \<lparr>nodePath = nodePath this, stackOf = stackOf this, stack = stackOf this,
        env = \<lparr>account = orDefault (propsAccount props) (stackAccount (stackOf this)),
               region = orDefault (propsRegion props) (stackRegion (stackOf this))\<rparr>,
        physicalName = n, privPhysicalName = Some n, allowCrossEnvironment = False\<rparr>"
    using constructor_other [of props n this] conflicting_is_unresolved [of n] by blast
  show "Resource_constructor this props =
       \<lparr>nodePath = nodePath this, stackOf = stackOf this, stack = stackOf this,
        env = \<lparr>account = orDefault (propsAccount props) (stackAccount (stackOf this)),
               region = orDefault (propsRegion props) (stackRegion (stackOf this))\<rparr>,
        physicalName = n, privPhysicalName = Some n, allowCrossEnvironment = False\<rparr>
     \<and> enableCrossEnvironment gen (Resource_constructor this props)
         = (Thrown (crossEnvironmentError (nodePath this)), Resource_constructor this props)"
    by (simp add: r enableCrossEnvironment_def)
qed

text \<open>
  C6 as stated fails: with a physical name made of the text \<open>my-bucket\<close> followed by the
  marker, construction does not fail; it returns this resource.
\<close>

theorem constructor_conflicting_name_counterexample:
  "spec_conflictingPhysicalName (lit ''my-bucket'' @ [Tok GENERATE_IF_NEEDED])
   \<and> Resource_constructor
        \<lparr>nodePath = ''App/A/Bucket'',
         stackOf = \<lparr>stackAccount = lit ''111'', stackRegion = lit ''eu-west-1'',
                    environment = lit ''aws://111/eu-west-1''\<rparr>\<rparr>
        \<lparr>propsPhysicalName = Some (lit ''my-bucket'' @ [Tok GENERATE_IF_NEEDED]),
         propsAccount = None, propsRegion = None\<rparr>
     = \<lparr>nodePath = ''App/A/Bucket'',
        stackOf = \<lparr>stackAccount = lit ''111'', stackRegion = lit ''eu-west-1'',
                   environment = lit ''aws://111/eu-west-1''\<rparr>,
        stack = \<lparr>stackAccount = lit ''111'', stackRegion = lit ''eu-west-1'',
                 environment = lit ''aws://111/eu-west-1''\<rparr>,
        env = \<lparr>account = lit ''111'', region = lit ''eu-west-1''\<rparr>,
        physicalName = lit ''my-bucket'' @ [Tok GENERATE_IF_NEEDED],
        privPhysicalName = Some (lit ''my-bucket'' @ [Tok GENERATE_IF_NEEDED]),
        allowCrossEnvironment = False\<rparr>"
  by (simp add: spec_conflictingPhysicalName_def Resource_constructor_def Let_def andThen_def
      orDefault_def lit_def isGeneratedWhenNeededMarker_def isUnresolved_def)

section \<open>Cross-environment references\<close>

lemma enableCrossEnvironment_unset:
  "\<not> allowCrossEnvironment this \<Longrightarrow>
     enableCrossEnvironment gen this = (Thrown (crossEnvironmentError (nodePath this)), this)"
  by (simp add: enableCrossEnvironment_def)

lemma enableCrossEnvironment_generates:
  "allowCrossEnvironment this \<Longrightarrow> \<not> truthy (privPhysicalName this) \<Longrightarrow>
   gen this = Returned name \<Longrightarrow>
     enableCrossEnvironment gen this = (Returned (), this\<lparr>privPhysicalName := Some name\<rparr>)"
  by (simp add: enableCrossEnvironment_def)

lemma enableCrossEnvironment_generator_throws:
  "allowCrossEnvironment this \<Longrightarrow> \<not> truthy (privPhysicalName this) \<Longrightarrow>
   gen this = Thrown e \<Longrightarrow>
     enableCrossEnvironment gen this = (Thrown e, this)"
  by (simp add: enableCrossEnvironment_def)

lemma enableCrossEnvironment_keeps:
  "allowCrossEnvironment this \<Longrightarrow> truthy (privPhysicalName this) \<Longrightarrow>
     enableCrossEnvironment gen this = (Returned (), this)"
  by (simp add: enableCrossEnvironment_def)

lemma enableCrossEnvironment_frame:
  "snd (enableCrossEnvironment gen this)
     = this\<lparr>privPhysicalName := privPhysicalName (snd (enableCrossEnvironment gen this))\<rparr>"
  by (simp add: enableCrossEnvironment_def split: outcome.splits)

lemma enableCrossEnvironment_stack:
  "stack (snd (enableCrossEnvironment gen this)) = stack this"
  "physicalName (snd (enableCrossEnvironment gen this)) = physicalName this"
  "env (snd (enableCrossEnvironment gen this)) = env this"
  by (simp_all add: enableCrossEnvironment_def split: outcome.splits)

lemma nameAttributeProduce_same:
  "environment (stack this) = environment (stackOf (scope ctx)) \<Longrightarrow>
     nameAttributeProduce gen nameAttr ctx this = (Returned nameAttr, this)"
  by (simp add: nameAttributeProduce_def)

lemma nameAttributeProduce_cross:
  "environment (stack this) \<noteq> environment (stackOf (scope ctx)) \<Longrightarrow>
     snd (nameAttributeProduce gen nameAttr ctx this) = snd (enableCrossEnvironment gen this)
     \<and> fst (nameAttributeProduce gen nameAttr ctx this) =
         (case fst (enableCrossEnvironment gen this) of
            Thrown e \<Rightarrow> Thrown e | Returned u \<Rightarrow> Returned (physicalName this))"
  by (simp add: nameAttributeProduce_def enableCrossEnvironment_def split: outcome.splits)

lemma arnAttributeResolve_same:
  "environment (stack this) = environment (stackOf (scope ctx)) \<Longrightarrow>
     arnAttributeResolve gen formatArn arnAttr arnComponents ctx this = (Returned arnAttr, this)"
  by (simp add: arnAttributeResolve_def)

lemma arnAttributeResolve_cross:
  "environment (stack this) \<noteq> environment (stackOf (scope ctx)) \<Longrightarrow>
     snd (arnAttributeResolve gen formatArn arnAttr arnComponents ctx this)
       = snd (enableCrossEnvironment gen this)
     \<and> fst (arnAttributeResolve gen formatArn arnAttr arnComponents ctx this) =
         (case fst (enableCrossEnvironment gen this) of
            Thrown e \<Rightarrow> Thrown e | Returned u \<Rightarrow> Returned (formatArn (stack this) arnComponents))"
  by (simp add: arnAttributeResolve_def enableCrossEnvironment_def split: outcome.splits)

text \<open>
  C1, as amended. Resolving the name or ARN attribute token returns the native attribute
  reference (\<open>nameAttr\<close>, \<open>arnAttr\<close>) and leaves the resource as it is when the
  \<open>environment\<close> string of the resource's own stack is identical to the \<open>environment\<close>
  string of the consuming stack. When the two strings differ, the resolution calls
  \<open>_enableCrossEnvironment()\<close>; if that throws, the error is the result, and otherwise the
  result is the resource's \<open>physicalName\<close>, or the ARN that the resource's stack formats
  from the ARN components. The resource's own \<open>env\<close> is not read, and the comparison is
  the strict one of the two strings.
\<close>

theorem attribute_resolution_by_stack_environment:
  "(environment (stack this) = environment (stackOf (scope ctx)) \<longrightarrow>
      nameAttributeProduce gen nameAttr ctx this = (Returned nameAttr, this)
      \<and> arnAttributeResolve gen formatArn arnAttr arnComponents ctx this = (Returned arnAttr, this))
   \<and> (environment (stack this) \<noteq> environment (stackOf (scope ctx)) \<longrightarrow>
      snd (nameAttributeProduce gen nameAttr ctx this) = snd (enableCrossEnvironment gen this)
      \<and> fst (nameAttributeProduce gen nameAttr ctx this) =
          (case fst (enableCrossEnvironment gen this) of
             Thrown e \<Rightarrow> Thrown e | Returned u \<Rightarrow> Returned (physicalName this))
      \<and> snd (arnAttributeResolve gen formatArn arnAttr arnComponents ctx this)
          = snd (enableCrossEnvironment gen this)
      \<and> fst (arnAttributeResolve gen formatArn arnAttr arnComponents ctx this) =
          (case fst (enableCrossEnvironment gen this) of
             Thrown e \<Rightarrow> Thrown e
           | Returned u \<Rightarrow> Returned (formatArn (stack this) arnComponents)))"
  using nameAttributeProduce_same [of this ctx gen nameAttr]
    nameAttributeProduce_cross [of this ctx gen nameAttr]
    arnAttributeResolve_same [of this ctx gen formatArn arnAttr arnComponents]
    arnAttributeResolve_cross [of this ctx gen formatArn arnAttr arnComponents]
  by blast

text \<open>
  C1 as stated fails. A resource constructed with account \<open>111\<close> in its props, inside the
  stack of account \<open>222\<close>, has the environment \<open>(111, eu-west-1)\<close>. A scope of the same
  stack has the environment \<open>(222, eu-west-1)\<close>, which differs under the token-aware
  comparison. Resolving the name attribute for that scope returns the native attribute
  reference all the same.
\<close>

theorem attribute_resolution_resource_environment_counterexample:
  "\<not> spec_sameEnvironment
        (env (Resource_constructor
          \<lparr>nodePath = ''App/B/Bucket'',
           stackOf = \<lparr>stackAccount = lit ''222'', stackRegion = lit ''eu-west-1'',
                      environment = lit ''aws://222/eu-west-1''\<rparr>\<rparr>
          \<lparr>propsPhysicalName = None, propsAccount = Some (lit ''111''), propsRegion = None\<rparr>))
        (scopeEnvironment
          \<lparr>nodePath = ''App/B/Fn'',
           stackOf = \<lparr>stackAccount = lit ''222'', stackRegion = lit ''eu-west-1'',
                      environment = lit ''aws://222/eu-west-1''\<rparr>\<rparr>)
   \<and> fst (nameAttributeProduce (Returned \<circ> lit \<circ> nodePath) (lit ''Ref'')
        \<lparr>scope = \<lparr>nodePath = ''App/B/Fn'',
           stackOf = \<lparr>stackAccount = lit ''222'', stackRegion = lit ''eu-west-1'',
                      environment = lit ''aws://222/eu-west-1''\<rparr>\<rparr>\<rparr>
        (Resource_constructor
          \<lparr>nodePath = ''App/B/Bucket'',
           stackOf = \<lparr>stackAccount = lit ''222'', stackRegion = lit ''eu-west-1'',
                      environment = lit ''aws://222/eu-west-1''\<rparr>\<rparr>
          \<lparr>propsPhysicalName = None, propsAccount = Some (lit ''111''), propsRegion = None\<rparr>))
      = Returned (lit ''Ref'')"
  by (simp add: spec_sameEnvironment_def scopeEnvironment_def compareStrings_def lit_def
      Resource_constructor_def Let_def orDefault_def andThen_def nameAttributeProduce_def)

text \<open>
  C3, as amended. For a resource in the state Unset, \<open>_enableCrossEnvironment()\<close> throws
  the error that names the construct path of the resource and tells the caller to set
  the physical name explicitly or to use \<open>PhysicalName.GENERATE_IF_NEEDED\<close>, and so does
  the resolution of the name attribute and of the ARN attribute for a scope whose stack
  has an \<open>environment\<close> string other than that of the resource's own stack. In each case
  the resource is left exactly as it was.
\<close>

theorem unset_cross_environment_fails:
  "physicalNameState this = Unset \<longrightarrow>
     enableCrossEnvironment gen this = (Thrown (crossEnvironmentError (nodePath this)), this)
     \<and> crossEnvironmentError (nodePath this)
         = ''Cannot use resource '' @ [CHR 0x27] @ nodePath this @ [CHR 0x27]
           @ '' in a cross-environment fashion, the resource'' @ [CHR 0x27]
           @ ''s physical name must be explicit set or use `PhysicalName.GENERATE_IF_NEEDED`''
     \<and> (environment (stack this) \<noteq> environment (stackOf (scope ctx)) \<longrightarrow>
          nameAttributeProduce gen nameAttr ctx this
            = (Thrown (crossEnvironmentError (nodePath this)), this)
          \<and> arnAttributeResolve gen formatArn arnAttr arnComponents ctx this
            = (Thrown (crossEnvironmentError (nodePath this)), this))"
proof
  assume "physicalNameState this = Unset"
  then have na: "\<not> allowCrossEnvironment this"
    by (auto simp: physicalNameState_def split: if_splits)
  have e: "enableCrossEnvironment gen this = (Thrown (crossEnvironmentError (nodePath this)), this)"
    using na by (rule enableCrossEnvironment_unset)
  have m: "crossEnvironmentError (nodePath this)
         = ''Cannot use resource '' @ [CHR 0x27] @ nodePath this @ [CHR 0x27]
           @ '' in a cross-environment fashion, the resource'' @ [CHR 0x27]
           @ ''s physical name must be explicit set or use `PhysicalName.GENERATE_IF_NEEDED`''"
    by (simp add: crossEnvironmentError_def)
  have x: "environment (stack this) \<noteq> environment (stackOf (scope ctx)) \<longrightarrow>
          nameAttributeProduce gen nameAttr ctx this
            = (Thrown (crossEnvironmentError (nodePath this)), this)
          \<and> arnAttributeResolve gen formatArn arnAttr arnComponents ctx this
            = (Thrown (crossEnvironmentError (nodePath this)), this)"
    using e by (simp add: nameAttributeProduce_def arnAttributeResolve_def)
  show "enableCrossEnvironment gen this = (Thrown (crossEnvironmentError (nodePath this)), this)
     \<and> crossEnvironmentError (nodePath this)
         = ''Cannot use resource '' @ [CHR 0x27] @ nodePath this @ [CHR 0x27]
           @ '' in a cross-environment fashion, the resource'' @ [CHR 0x27]
           @ ''s physical name must be explicit set or use `PhysicalName.GENERATE_IF_NEEDED`''
     \<and> (environment (stack this) \<noteq> environment (stackOf (scope ctx)) \<longrightarrow>
          nameAttributeProduce gen nameAttr ctx this
            = (Thrown (crossEnvironmentError (nodePath this)), this)
          \<and> arnAttributeResolve gen formatArn arnAttr arnComponents ctx this
            = (Thrown (crossEnvironmentError (nodePath this)), this))"
    using e m x by (intro conjI)
qed

text \<open>
  C3 as stated fails. A resource in the state Unset, constructed with account \<open>111\<close> in
  its props inside the stack of account \<open>222\<close>, is referenced from a scope of that stack:
  the scope's environment \<open>(222, eu-west-1)\<close> is not the resource's \<open>(111, eu-west-1)\<close>,
  yet the name attribute and the ARN attribute resolve to the native references and
  nothing is thrown.
\<close>

theorem unset_reference_from_own_stack_counterexample:
  "physicalNameState (Resource_constructor
          \<lparr>nodePath = ''App/B/Bucket'',
           stackOf = \<lparr>stackAccount = lit ''222'', stackRegion = lit ''eu-west-1'',
                      environment = lit ''aws://222/eu-west-1''\<rparr>\<rparr>
          \<lparr>propsPhysicalName = None, propsAccount = Some (lit ''111''), propsRegion = None\<rparr>)
     = Unset
   \<and> \<not> spec_sameEnvironment
        (env (Resource_constructor
          \<lparr>nodePath = ''App/B/Bucket'',
           stackOf = \<lparr>stackAccount = lit ''222'', stackRegion = lit ''eu-west-1'',
                      environment = lit ''aws://222/eu-west-1''\<rparr>\<rparr>
          \<lparr>propsPhysicalName = None, propsAccount = Some (lit ''111''), propsRegion = None\<rparr>))
        (scopeEnvironment
          \<lparr>nodePath = ''App/B/Fn'',
           stackOf = \<lparr>stackAccount = lit ''222'', stackRegion = lit ''eu-west-1'',
                      environment = lit ''aws://222/eu-west-1''\<rparr>\<rparr>)
   \<and> nameAttributeProduce (Returned \<circ> lit \<circ> nodePath) (lit ''Ref'')
        \<lparr>scope = \<lparr>nodePath = ''App/B/Fn'',
           stackOf = \<lparr>stackAccount = lit ''222'', stackRegion = lit ''eu-west-1'',
                      environment = lit ''aws://222/eu-west-1''\<rparr>\<rparr>\<rparr>
        (Resource_constructor
          \<lparr>nodePath = ''App/B/Bucket'',
           stackOf = \<lparr>stackAccount = lit ''222'', stackRegion = lit ''eu-west-1'',
                      environment = lit ''aws://222/eu-west-1''\<rparr>\<rparr>
          \<lparr>propsPhysicalName = None, propsAccount = Some (lit ''111''), propsRegion = None\<rparr>)
      = (Returned (lit ''Ref''),
         Resource_constructor
          \<lparr>nodePath = ''App/B/Bucket'',
           stackOf = \<lparr>stackAccount = lit ''222'', stackRegion = lit ''eu-west-1'',
                      environment = lit ''aws://222/eu-west-1''\<rparr>\<rparr>
          \<lparr>propsPhysicalName = None, propsAccount = Some (lit ''111''), propsRegion = None\<rparr>)
   \<and> arnAttributeResolve (Returned \<circ> lit \<circ> nodePath) ((@) \<circ> stackAccount)
        (lit ''Arn'') (lit '':bucket'')
        \<lparr>scope = \<lparr>nodePath = ''App/B/Fn'',
           stackOf = \<lparr>stackAccount = lit ''222'', stackRegion = lit ''eu-west-1'',
                      environment = lit ''aws://222/eu-west-1''\<rparr>\<rparr>\<rparr>
        (Resource_constructor
          \<lparr>nodePath = ''App/B/Bucket'',
           stackOf = \<lparr>stackAccount = lit ''222'', stackRegion = lit ''eu-west-1'',
                      environment = lit ''aws://222/eu-west-1''\<rparr>\<rparr>
          \<lparr>propsPhysicalName = None, propsAccount = Some (lit ''111''), propsRegion = None\<rparr>)
      = (Returned (lit ''Arn''),
         Resource_constructor
          \<lparr>nodePath = ''App/B/Bucket'',
           stackOf = \<lparr>stackAccount = lit ''222'', stackRegion = lit ''eu-west-1'',
                      environment = lit ''aws://222/eu-west-1''\<rparr>\<rparr>
          \<lparr>propsPhysicalName = None, propsAccount = Some (lit ''111''), propsRegion = None\<rparr>)"
  by (simp add: spec_sameEnvironment_def scopeEnvironment_def compareStrings_def lit_def
      physicalNameState_def Resource_constructor_def Let_def orDefault_def andThen_def
      nameAttributeProduce_def arnAttributeResolve_def)

text \<open>
  C4, as amended. A resource constructed with the marker is in the state
  Deferred-if-needed. The first call of \<open>_enableCrossEnvironment()\<close>, made directly or by
  resolving the name attribute for a scope whose stack has another \<open>environment\<close> string
  than the resource's own stack, calls \<open>generatePhysicalName(this)\<close>. If that throws, the
  error is the result and the resource stays as it was. If it returns a name, the name
  is stored as the private physical name, which the lazy token of the resource then
  produces. Once the stored name is not empty the state is Generated, and every later
  call returns without calling the generator: whatever generator is passed then
  (\<open>later\<close>), the resource stays as the first call left it, for any number of calls and
  for later resolutions of the name attribute.
\<close>

theorem generated_name_once:
  "propsPhysicalName props = Some n \<and> isGeneratedWhenNeededMarker n \<longrightarrow>
     (let r0 = Resource_constructor this props;
          r1 = r0\<lparr>privPhysicalName := Some name\<rparr>
      in physicalNameState r0 = DeferredIfNeeded
         \<and> (gen r0 = Thrown e \<longrightarrow> enableCrossEnvironment gen r0 = (Thrown e, r0))
         \<and> (gen r0 = Returned name \<longrightarrow>
              enableCrossEnvironment gen r0 = (Returned (), r1)
              \<and> (environment (stack r0) \<noteq> environment (stackOf (scope ctx)) \<longrightarrow>
                   nameAttributeProduce gen nameAttr ctx r0 = (Returned (physicalName r0), r1))
              \<and> producePhysicalName r1 = Some name)
         \<and> (name \<noteq> [] \<longrightarrow>
              physicalNameState r1 = Generated
              \<and> enableCrossEnvironment later r1 = (Returned (), r1)
              \<and> ((\<lambda>r. snd (enableCrossEnvironment later r)) ^^ k) r1 = r1
              \<and> (environment (stack r1) \<noteq> environment (stackOf (scope ctx)) \<longrightarrow>
                   nameAttributeProduce later nameAttr ctx r1 = (Returned (physicalName r1), r1))
              \<and> producePhysicalName r1 = Some name))"
proof
  assume a: "propsPhysicalName props = Some n \<and> isGeneratedWhenNeededMarker n"
  define r0 where "r0 = Resource_constructor this props"
  define r1 where "r1 = r0\<lparr>privPhysicalName := Some name\<rparr>"
  have r: "r0 =
     \<lparr>nodePath = nodePath this, stackOf = stackOf this, stack = stackOf this,
      env = \<lparr>account = orDefault (propsAccount props) (stackAccount (stackOf this)),
             region = orDefault (propsRegion props) (stackRegion (stackOf this))\<rparr>,
      physicalName = Lazy_stringValue_physicalName, privPhysicalName = None,
      allowCrossEnvironment = True\<rparr>"
    unfolding r0_def using a constructor_marker by blast
  have f: "allowCrossEnvironment r0" "\<not> truthy (privPhysicalName r0)"
    "physicalName r0 = Lazy_stringValue_physicalName"
    by (simp_all add: r truthy_def)
  have f1: "allowCrossEnvironment r1" "physicalName r1 = Lazy_stringValue_physicalName"
    "privPhysicalName r1 = Some name" "stack r1 = stack r0"
    using f by (simp_all add: r1_def)
  have s0: "physicalNameState r0 = DeferredIfNeeded"
    using f by (simp add: physicalNameState_def)
  have t0: "gen r0 = Thrown e \<longrightarrow> enableCrossEnvironment gen r0 = (Thrown e, r0)"
    using enableCrossEnvironment_generator_throws [OF f(1) f(2)] by blast
  have g0: "gen r0 = Returned name \<longrightarrow>
              enableCrossEnvironment gen r0 = (Returned (), r1)
              \<and> (environment (stack r0) \<noteq> environment (stackOf (scope ctx)) \<longrightarrow>
                   nameAttributeProduce gen nameAttr ctx r0 = (Returned (physicalName r0), r1))
              \<and> producePhysicalName r1 = Some name"
  proof
    assume g: "gen r0 = Returned name"
    have e0: "enableCrossEnvironment gen r0 = (Returned (), r1)"
      unfolding r1_def using f(1) f(2) g by (rule enableCrossEnvironment_generates)
    have "environment (stack r0) \<noteq> environment (stackOf (scope ctx)) \<longrightarrow>
            nameAttributeProduce gen nameAttr ctx r0 = (Returned (physicalName r0), r1)"
      using e0 f f1 by (simp add: nameAttributeProduce_def)
    then show "enableCrossEnvironment gen r0 = (Returned (), r1)
              \<and> (environment (stack r0) \<noteq> environment (stackOf (scope ctx)) \<longrightarrow>
                   nameAttributeProduce gen nameAttr ctx r0 = (Returned (physicalName r0), r1))
              \<and> producePhysicalName r1 = Some name"
      using e0 f1 by (simp add: producePhysicalName_def)
  qed
  have g1: "name \<noteq> [] \<longrightarrow>
              physicalNameState r1 = Generated
              \<and> enableCrossEnvironment later r1 = (Returned (), r1)
              \<and> ((\<lambda>r. snd (enableCrossEnvironment later r)) ^^ k) r1 = r1
              \<and> (environment (stack r1) \<noteq> environment (stackOf (scope ctx)) \<longrightarrow>
                   nameAttributeProduce later nameAttr ctx r1 = (Returned (physicalName r1), r1))
              \<and> producePhysicalName r1 = Some name"
  proof
    assume ne: "name \<noteq> []"
    then have tr: "truthy (privPhysicalName r1)"
      using f1 by (simp add: truthy_def)
    have e1: "enableCrossEnvironment later r1 = (Returned (), r1)"
      using f1(1) tr by (rule enableCrossEnvironment_keeps)
    have it: "((\<lambda>r. snd (enableCrossEnvironment later r)) ^^ k) r1 = r1"
      by (induction k) (simp_all add: e1)
    have st: "physicalNameState r1 = Generated"
      using f1 tr by (simp add: physicalNameState_def)
    have nm: "environment (stack r1) \<noteq> environment (stackOf (scope ctx)) \<longrightarrow>
                nameAttributeProduce later nameAttr ctx r1 = (Returned (physicalName r1), r1)"
      using e1 by (simp add: nameAttributeProduce_def)
    show "physicalNameState r1 = Generated
              \<and> enableCrossEnvironment later r1 = (Returned (), r1)
              \<and> ((\<lambda>r. snd (enableCrossEnvironment later r)) ^^ k) r1 = r1
              \<and> (environment (stack r1) \<noteq> environment (stackOf (scope ctx)) \<longrightarrow>
                   nameAttributeProduce later nameAttr ctx r1 = (Returned (physicalName r1), r1))
              \<and> producePhysicalName r1 = Some name"
      using st e1 it nm f1 by (simp add: producePhysicalName_def)
  qed
  have "physicalNameState r0 = DeferredIfNeeded
         \<and> (gen r0 = Thrown e \<longrightarrow> enableCrossEnvironment gen r0 = (Thrown e, r0))
         \<and> (gen r0 = Returned name \<longrightarrow>
              enableCrossEnvironment gen r0 = (Returned (), r1)
              \<and> (environment (stack r0) \<noteq> environment (stackOf (scope ctx)) \<longrightarrow>
                   nameAttributeProduce gen nameAttr ctx r0 = (Returned (physicalName r0), r1))
              \<and> producePhysicalName r1 = Some name)
         \<and> (name \<noteq> [] \<longrightarrow>
              physicalNameState r1 = Generated
              \<and> enableCrossEnvironment later r1 = (Returned (), r1)
              \<and> ((\<lambda>r. snd (enableCrossEnvironment later r)) ^^ k) r1 = r1
              \<and> (environment (stack r1) \<noteq> environment (stackOf (scope ctx)) \<longrightarrow>
                   nameAttributeProduce later nameAttr ctx r1 = (Returned (physicalName r1), r1))
              \<and> producePhysicalName r1 = Some name)"
    using s0 t0 g0 g1 by (intro conjI)
  then show "(let r0 = Resource_constructor this props;
          r1 = r0\<lparr>privPhysicalName := Some name\<rparr>
      in physicalNameState r0 = DeferredIfNeeded
         \<and> (gen r0 = Thrown e \<longrightarrow> enableCrossEnvironment gen r0 = (Thrown e, r0))
         \<and> (gen r0 = Returned name \<longrightarrow>
              enableCrossEnvironment gen r0 = (Returned (), r1)
              \<and> (environment (stack r0) \<noteq> environment (stackOf (scope ctx)) \<longrightarrow>
                   nameAttributeProduce gen nameAttr ctx r0 = (Returned (physicalName r0), r1))
              \<and> producePhysicalName r1 = Some name)
         \<and> (name \<noteq> [] \<longrightarrow>
              physicalNameState r1 = Generated
              \<and> enableCrossEnvironment later r1 = (Returned (), r1)
              \<and> ((\<lambda>r. snd (enableCrossEnvironment later r)) ^^ k) r1 = r1
              \<and> (environment (stack r1) \<noteq> environment (stackOf (scope ctx)) \<longrightarrow>
                   nameAttributeProduce later nameAttr ctx r1 = (Returned (physicalName r1), r1))
              \<and> producePhysicalName r1 = Some name))"
    unfolding Let_def r1_def r0_def .
qed

text \<open>
  C4 as stated fails. A resource constructed with the marker and with account \<open>111\<close> in
  its props, inside the stack of account \<open>222\<close>, is referenced from a scope of that
  stack. The scope's environment \<open>(222, eu-west-1)\<close> is not the resource's
  \<open>(111, eu-west-1)\<close>, so this is a first cross-environment reference; it resolves to the
  native reference, no name is derived and the state stays Deferred-if-needed.
\<close>

theorem marker_reference_from_own_stack_counterexample:
  "\<not> spec_sameEnvironment
        (env (Resource_constructor
          \<lparr>nodePath = ''App/B/Bucket'',
           stackOf = \<lparr>stackAccount = lit ''222'', stackRegion = lit ''eu-west-1'',
                      environment = lit ''aws://222/eu-west-1''\<rparr>\<rparr>
          \<lparr>propsPhysicalName = Some [Tok GENERATE_IF_NEEDED], propsAccount = Some (lit ''111''),
           propsRegion = None\<rparr>))
        (scopeEnvironment
          \<lparr>nodePath = ''App/B/Fn'',
           stackOf = \<lparr>stackAccount = lit ''222'', stackRegion = lit ''eu-west-1'',
                      environment = lit ''aws://222/eu-west-1''\<rparr>\<rparr>)
   \<and> fst (nameAttributeProduce (Returned \<circ> lit \<circ> nodePath) (lit ''Ref'')
        \<lparr>scope = \<lparr>nodePath = ''App/B/Fn'',
           stackOf = \<lparr>stackAccount = lit ''222'', stackRegion = lit ''eu-west-1'',
                      environment = lit ''aws://222/eu-west-1''\<rparr>\<rparr>\<rparr>
        (Resource_constructor
          \<lparr>nodePath = ''App/B/Bucket'',
           stackOf = \<lparr>stackAccount = lit ''222'', stackRegion = lit ''eu-west-1'',
                      environment = lit ''aws://222/eu-west-1''\<rparr>\<rparr>
          \<lparr>propsPhysicalName = Some [Tok GENERATE_IF_NEEDED], propsAccount = Some (lit ''111''),
           propsRegion = None\<rparr>))
      = Returned (lit ''Ref'')
   \<and> physicalNameState (snd (nameAttributeProduce (Returned \<circ> lit \<circ> nodePath) (lit ''Ref'')
        \<lparr>scope = \<lparr>nodePath = ''App/B/Fn'',
           stackOf = \<lparr>stackAccount = lit ''222'', stackRegion = lit ''eu-west-1'',
                      environment = lit ''aws://222/eu-west-1''\<rparr>\<rparr>\<rparr>
        (Resource_constructor
          \<lparr>nodePath = ''App/B/Bucket'',
           stackOf = \<lparr>stackAccount = lit ''222'', stackRegion = lit ''eu-west-1'',
                      environment = lit ''aws://222/eu-west-1''\<rparr>\<rparr>
          \<lparr>propsPhysicalName = Some [Tok GENERATE_IF_NEEDED], propsAccount = Some (lit ''111''),
           propsRegion = None\<rparr>)))
      = DeferredIfNeeded
   \<and> producePhysicalName (snd (nameAttributeProduce (Returned \<circ> lit \<circ> nodePath) (lit ''Ref'')
        \<lparr>scope = \<lparr>nodePath = ''App/B/Fn'',
           stackOf = \<lparr>stackAccount = lit ''222'', stackRegion = lit ''eu-west-1'',
                      environment = lit ''aws://222/eu-west-1''\<rparr>\<rparr>\<rparr>
        (Resource_constructor
          \<lparr>nodePath = ''App/B/Bucket'',
           stackOf = \<lparr>stackAccount = lit ''222'', stackRegion = lit ''eu-west-1'',
                      environment = lit ''aws://222/eu-west-1''\<rparr>\<rparr>
          \<lparr>propsPhysicalName = Some [Tok GENERATE_IF_NEEDED], propsAccount = Some (lit ''111''),
           propsRegion = None\<rparr>)))
      = None"
  by (simp add: spec_sameEnvironment_def scopeEnvironment_def compareStrings_def lit_def
      physicalNameState_def producePhysicalName_def truthy_def Resource_constructor_def Let_def
      orDefault_def andThen_def isGeneratedWhenNeededMarker_def nameAttributeProduce_def)

text \<open>
  C5, as amended. The name attribute token is resolved by running its producer on each
  resolution call, with the context of that call; no result of one call is kept for
  another. A scope whose stack has the same \<open>environment\<close> string as the resource's own
  stack gets \<open>nameAttr\<close>, before and after a resolution for another scope. A scope
  whose stack has another \<open>environment\<close> string gets the \<open>physicalName\<close> of the resource
  when \<open>_enableCrossEnvironment()\<close> returns, and the cross-environment error when the
  resource does not allow cross-environment references; an earlier resolution for a
  scope of the same environment changes nothing of that.
\<close>

theorem name_attribute_not_memoized:
  "environment (stack this) = environment (stackOf (scope same))
   \<and> environment (stack this) \<noteq> environment (stackOf (scope other)) \<longrightarrow>
     Lazy_resolve (nameAttributeProduce gen nameAttr) same this = (Returned nameAttr, this)
     \<and> (fst (enableCrossEnvironment gen this) = Returned () \<longrightarrow>
          fst (Lazy_resolve (nameAttributeProduce gen nameAttr) other this)
            = Returned (physicalName this))
     \<and> (\<not> allowCrossEnvironment this \<longrightarrow>
          Lazy_resolve (nameAttributeProduce gen nameAttr) other this
            = (Thrown (crossEnvironmentError (nodePath this)), this))
     \<and> fst (Lazy_resolve (nameAttributeProduce gen nameAttr) same
              (snd (Lazy_resolve (nameAttributeProduce gen nameAttr) other this)))
         = Returned nameAttr
     \<and> Lazy_resolve (nameAttributeProduce gen nameAttr) other
              (snd (Lazy_resolve (nameAttributeProduce gen nameAttr) same this))
         = Lazy_resolve (nameAttributeProduce gen nameAttr) other this"
proof
  assume a: "environment (stack this) = environment (stackOf (scope same))
   \<and> environment (stack this) \<noteq> environment (stackOf (scope other))"
  have s: "nameAttributeProduce gen nameAttr same this = (Returned nameAttr, this)"
    using a by (simp add: nameAttributeProduce_same)
  note o = nameAttributeProduce_cross [of this other gen nameAttr, OF a [THEN conjunct2]]
  have o1: "fst (enableCrossEnvironment gen this) = Returned () \<longrightarrow>
          fst (nameAttributeProduce gen nameAttr other this) = Returned (physicalName this)"
    using o by simp
  have o2: "\<not> allowCrossEnvironment this \<longrightarrow>
          nameAttributeProduce gen nameAttr other this
            = (Thrown (crossEnvironmentError (nodePath this)), this)"
    using a [THEN conjunct2] by (simp add: nameAttributeProduce_def enableCrossEnvironment_def)
  have "stack (snd (nameAttributeProduce gen nameAttr other this)) = stack this"
    using o enableCrossEnvironment_stack(1) [of gen this] by simp
  then have so: "fst (nameAttributeProduce gen nameAttr same
              (snd (nameAttributeProduce gen nameAttr other this))) = Returned nameAttr"
    using a by (simp add: nameAttributeProduce_same)
  show "Lazy_resolve (nameAttributeProduce gen nameAttr) same this = (Returned nameAttr, this)
     \<and> (fst (enableCrossEnvironment gen this) = Returned () \<longrightarrow>
          fst (Lazy_resolve (nameAttributeProduce gen nameAttr) other this)
            = Returned (physicalName this))
     \<and> (\<not> allowCrossEnvironment this \<longrightarrow>
          Lazy_resolve (nameAttributeProduce gen nameAttr) other this
            = (Thrown (crossEnvironmentError (nodePath this)), this))
     \<and> fst (Lazy_resolve (nameAttributeProduce gen nameAttr) same
              (snd (Lazy_resolve (nameAttributeProduce gen nameAttr) other this)))
         = Returned nameAttr
     \<and> Lazy_resolve (nameAttributeProduce gen nameAttr) other
              (snd (Lazy_resolve (nameAttributeProduce gen nameAttr) same this))
         = Lazy_resolve (nameAttributeProduce gen nameAttr) other this"
    unfolding Lazy_resolve_def using s o1 o2 so by simp
qed

text \<open>
  C5 as stated fails. A resource constructed with no physical name in the stack of
  account \<open>111\<close> is resolved for a scope in the stack of account \<open>222\<close>, a different
  environment: the resolution does not yield the physical name of the resource, it
  throws the cross-environment error.
\<close>

theorem name_attribute_unnamed_resource_counterexample:
  "\<not> spec_sameEnvironment
        (env (Resource_constructor
          \<lparr>nodePath = ''App/A/Bucket'',
           stackOf = \<lparr>stackAccount = lit ''111'', stackRegion = lit ''eu-west-1'',
                      environment = lit ''aws://111/eu-west-1''\<rparr>\<rparr>
          \<lparr>propsPhysicalName = None, propsAccount = None, propsRegion = None\<rparr>))
        (scopeEnvironment
          \<lparr>nodePath = ''App/B/Fn'',
           stackOf = \<lparr>stackAccount = lit ''222'', stackRegion = lit ''eu-west-1'',
                      environment = lit ''aws://222/eu-west-1''\<rparr>\<rparr>)
   \<and> Lazy_resolve (nameAttributeProduce (Returned \<circ> lit \<circ> nodePath) (lit ''Ref''))
        \<lparr>scope = \<lparr>nodePath = ''App/B/Fn'',
           stackOf = \<lparr>stackAccount = lit ''222'', stackRegion = lit ''eu-west-1'',
                      environment = lit ''aws://222/eu-west-1''\<rparr>\<rparr>\<rparr>
        (Resource_constructor
          \<lparr>nodePath = ''App/A/Bucket'',
           stackOf = \<lparr>stackAccount = lit ''111'', stackRegion = lit ''eu-west-1'',
                      environment = lit ''aws://111/eu-west-1''\<rparr>\<rparr>
          \<lparr>propsPhysicalName = None, propsAccount = None, propsRegion = None\<rparr>)
      = (Thrown (crossEnvironmentError ''App/A/Bucket''),
         Resource_constructor
          \<lparr>nodePath = ''App/A/Bucket'',
           stackOf = \<lparr>stackAccount = lit ''111'', stackRegion = lit ''eu-west-1'',
                      environment = lit ''aws://111/eu-west-1''\<rparr>\<rparr>
          \<lparr>propsPhysicalName = None, propsAccount = None, propsRegion = None\<rparr>)"
  by (simp add: spec_sameEnvironment_def scopeEnvironment_def compareStrings_def lit_def
      Lazy_resolve_def Resource_constructor_def Let_def orDefault_def andThen_def
      nameAttributeProduce_def enableCrossEnvironment_def)

text \<open>
  C7. The constructor takes \<open>env.account\<close> and \<open>env.region\<close> from the props, with the
  values of the owning stack as defaults. \<open>_enableCrossEnvironment()\<close> and the resolution
  of the name and ARN attributes change no field of the resource other than the private
  physical name, whether they return or throw; the environment in particular stays as
  constructed.
\<close>

theorem environment_frame:
  "env (Resource_constructor this props) =
      \<lparr>account = (case propsAccount props of None \<Rightarrow> stackAccount (stackOf this) | Some a \<Rightarrow> a),
       region = (case propsRegion props of None \<Rightarrow> stackRegion (stackOf this) | Some r \<Rightarrow> r)\<rparr>
   \<and> snd (enableCrossEnvironment gen r)
       = r\<lparr>privPhysicalName := privPhysicalName (snd (enableCrossEnvironment gen r))\<rparr>
   \<and> snd (nameAttributeProduce gen nameAttr ctx r)
       = r\<lparr>privPhysicalName := privPhysicalName (snd (nameAttributeProduce gen nameAttr ctx r))\<rparr>
   \<and> snd (arnAttributeResolve gen formatArn arnAttr arnComponents ctx r)
       = r\<lparr>privPhysicalName :=
            privPhysicalName (snd (arnAttributeResolve gen formatArn arnAttr arnComponents ctx r))\<rparr>
   \<and> env (snd (enableCrossEnvironment gen r)) = env r
   \<and> env (snd (nameAttributeProduce gen nameAttr ctx r)) = env r
   \<and> env (snd (arnAttributeResolve gen formatArn arnAttr arnComponents ctx r)) = env r"
  by (auto simp: Resource_constructor_def Let_def orDefault_def enableCrossEnvironment_def
      nameAttributeProduce_def arnAttributeResolve_def split: option.splits outcome.splits)

section \<open>The theorems at concrete resources\<close>

text \<open>
  The theorems above, used at a bucket of the stack of account \<open>111\<close>, with a consuming
  scope in the same stack and one in the stack of account \<open>222\<close>. The name generator
  returns the construct path of the resource.
\<close>

theorem attribute_resolution_by_stack_environment_witness:
  "(let A = \<lparr>stackAccount = lit ''111'', stackRegion = lit ''eu-west-1'',
                environment = lit ''aws://111/eu-west-1''\<rparr>;
        B = \<lparr>stackAccount = lit ''222'', stackRegion = lit ''eu-west-1'',
                environment = lit ''aws://222/eu-west-1''\<rparr>;
        bucket = \<lparr>nodePath = ''App/A/Bucket'', stackOf = A\<rparr>;
        same = \<lparr>scope = \<lparr>nodePath = ''App/A/Fn'', stackOf = A\<rparr>\<rparr>;
        other = \<lparr>scope = \<lparr>nodePath = ''App/B/Fn'', stackOf = B\<rparr>\<rparr>;
        marker = \<lparr>propsPhysicalName = Some [Tok GENERATE_IF_NEEDED], propsAccount = None,
                  propsRegion = None\<rparr>;
        named = \<lparr>propsPhysicalName = Some (lit ''my-bucket''), propsAccount = None,
                 propsRegion = None\<rparr>;
        unnamed = \<lparr>propsPhysicalName = None, propsAccount = None, propsRegion = None\<rparr>;
        R = Resource_constructor bucket named
    in environment (stack R) = environment (stackOf (scope same))
       \<and> nameAttributeProduce (Returned \<circ> lit \<circ> nodePath) (lit ''Ref'') same R = (Returned (lit ''Ref''), R)
       \<and> environment (stack R) \<noteq> environment (stackOf (scope other))
       \<and> fst (nameAttributeProduce (Returned \<circ> lit \<circ> nodePath) (lit ''Ref'') other R) = Returned (lit ''my-bucket''))"
proof -
  let ?A = "\<lparr>stackAccount = lit ''111'', stackRegion = lit ''eu-west-1'',
                environment = lit ''aws://111/eu-west-1''\<rparr>"
  let ?B = "\<lparr>stackAccount = lit ''222'', stackRegion = lit ''eu-west-1'',
                environment = lit ''aws://222/eu-west-1''\<rparr>"
  let ?bucket = "\<lparr>nodePath = ''App/A/Bucket'', stackOf = ?A\<rparr>"
  let ?same = "\<lparr>scope = \<lparr>nodePath = ''App/A/Fn'', stackOf = ?A\<rparr>\<rparr>"
  let ?other = "\<lparr>scope = \<lparr>nodePath = ''App/B/Fn'', stackOf = ?B\<rparr>\<rparr>"
  let ?marker = "\<lparr>propsPhysicalName = Some [Tok GENERATE_IF_NEEDED], propsAccount = None,
                  propsRegion = None\<rparr>"
  let ?named = "\<lparr>propsPhysicalName = Some (lit ''my-bucket''), propsAccount = None,
                 propsRegion = None\<rparr>"
  let ?unnamed = "\<lparr>propsPhysicalName = None, propsAccount = None, propsRegion = None\<rparr>"
  let ?G = "Returned \<circ> lit \<circ> nodePath :: Resource \<Rightarrow> tstring outcome"
  let ?R = "Resource_constructor ?bucket ?named"
  have hs: "environment (stack ?R) = environment (stackOf (scope ?same))"
    by (simp add: Resource_constructor_def Let_def)
  have ho: "environment (stack ?R) \<noteq> environment (stackOf (scope ?other))"
    by (simp add: Resource_constructor_def Let_def lit_def)
  have e: "fst (enableCrossEnvironment ?G ?R) = Returned ()"
    by (simp add: enableCrossEnvironment_def Resource_constructor_def Let_def andThen_def orDefault_def truthy_def lit_def isUnresolved_def isGeneratedWhenNeededMarker_def)
  have p: "physicalName ?R = lit ''my-bucket''"
    by (simp add: Resource_constructor_def Let_def andThen_def orDefault_def truthy_def lit_def isUnresolved_def isGeneratedWhenNeededMarker_def)
  have s: "nameAttributeProduce ?G (lit ''Ref'') ?same ?R = (Returned (lit ''Ref''), ?R)"
    by (rule attribute_resolution_by_stack_environment [of ?R ?same ?G "lit ''Ref''",
          THEN conjunct1, THEN mp, OF hs, THEN conjunct1])
  have o: "fst (nameAttributeProduce ?G (lit ''Ref'') ?other ?R) =
          (case fst (enableCrossEnvironment ?G ?R) of
             Thrown e \<Rightarrow> Thrown e | Returned u \<Rightarrow> Returned (physicalName ?R))"
    by (rule attribute_resolution_by_stack_environment [of ?R ?other ?G "lit ''Ref''",
          THEN conjunct2, THEN mp, OF ho, THEN conjunct2, THEN conjunct1])
  have o': "fst (nameAttributeProduce ?G (lit ''Ref'') ?other ?R) = Returned (lit ''my-bucket'')"
    by (simp add: o e p)
  show ?thesis
    unfolding Let_def by (intro conjI) (rule hs s ho o')+
qed

theorem constructor_physical_name_states_witness:
  "(let A = \<lparr>stackAccount = lit ''111'', stackRegion = lit ''eu-west-1'',
                environment = lit ''aws://111/eu-west-1''\<rparr>;
        B = \<lparr>stackAccount = lit ''222'', stackRegion = lit ''eu-west-1'',
                environment = lit ''aws://222/eu-west-1''\<rparr>;
        bucket = \<lparr>nodePath = ''App/A/Bucket'', stackOf = A\<rparr>;
        same = \<lparr>scope = \<lparr>nodePath = ''App/A/Fn'', stackOf = A\<rparr>\<rparr>;
        other = \<lparr>scope = \<lparr>nodePath = ''App/B/Fn'', stackOf = B\<rparr>\<rparr>;
        marker = \<lparr>propsPhysicalName = Some [Tok GENERATE_IF_NEEDED], propsAccount = None,
                  propsRegion = None\<rparr>;
        named = \<lparr>propsPhysicalName = Some (lit ''my-bucket''), propsAccount = None,
                 propsRegion = None\<rparr>;
        unnamed = \<lparr>propsPhysicalName = None, propsAccount = None, propsRegion = None\<rparr>;
        tokens = \<lparr>propsPhysicalName = Some (lit ''b-'' @ [Tok (DEFERRED 0 ''AWS::AccountId'')]),
                  propsAccount = None, propsRegion = None\<rparr>
    in isGeneratedWhenNeededMarker [Tok GENERATE_IF_NEEDED]
       \<and> physicalNameState (Resource_constructor bucket marker) = DeferredIfNeeded
       \<and> lit ''my-bucket'' \<noteq> [] \<and> \<not> isUnresolved (lit ''my-bucket'')
       \<and> physicalNameState (Resource_constructor bucket named) = Explicit
       \<and> physicalNameState (Resource_constructor bucket unnamed) = Unset
       \<and> isUnresolved (lit ''b-'' @ [Tok (DEFERRED 0 ''AWS::AccountId'')])
       \<and> \<not> isGeneratedWhenNeededMarker (lit ''b-'' @ [Tok (DEFERRED 0 ''AWS::AccountId'')])
       \<and> physicalNameState (Resource_constructor bucket tokens) = Unset)"
proof -
  let ?A = "\<lparr>stackAccount = lit ''111'', stackRegion = lit ''eu-west-1'',
                environment = lit ''aws://111/eu-west-1''\<rparr>"
  let ?B = "\<lparr>stackAccount = lit ''222'', stackRegion = lit ''eu-west-1'',
                environment = lit ''aws://222/eu-west-1''\<rparr>"
  let ?bucket = "\<lparr>nodePath = ''App/A/Bucket'', stackOf = ?A\<rparr>"
  let ?same = "\<lparr>scope = \<lparr>nodePath = ''App/A/Fn'', stackOf = ?A\<rparr>\<rparr>"
  let ?other = "\<lparr>scope = \<lparr>nodePath = ''App/B/Fn'', stackOf = ?B\<rparr>\<rparr>"
  let ?marker = "\<lparr>propsPhysicalName = Some [Tok GENERATE_IF_NEEDED], propsAccount = None,
                  propsRegion = None\<rparr>"
  let ?named = "\<lparr>propsPhysicalName = Some (lit ''my-bucket''), propsAccount = None,
                 propsRegion = None\<rparr>"
  let ?unnamed = "\<lparr>propsPhysicalName = None, propsAccount = None, propsRegion = None\<rparr>"
  let ?G = "Returned \<circ> lit \<circ> nodePath :: Resource \<Rightarrow> tstring outcome"
  let ?n = "lit ''b-'' @ [Tok (DEFERRED 0 ''AWS::AccountId'')]"
  let ?tokens = "\<lparr>propsPhysicalName = Some ?n, propsAccount = None, propsRegion = None\<rparr>"
  have m: "isGeneratedWhenNeededMarker [Tok GENERATE_IF_NEEDED]"
    by (simp add: isGeneratedWhenNeededMarker_def)
  have h1: "propsPhysicalName ?marker = Some [Tok GENERATE_IF_NEEDED]
            \<and> isGeneratedWhenNeededMarker [Tok GENERATE_IF_NEEDED]"
    using m by simp
  have c1: "physicalNameState (Resource_constructor ?bucket ?marker) = DeferredIfNeeded"
    by (rule constructor_physical_name_states [of ?marker "[Tok GENERATE_IF_NEEDED]" ?bucket,
          THEN conjunct1, THEN mp, OF h1, THEN conjunct1])
  have l: "lit ''my-bucket'' \<noteq> []" and u: "\<not> isUnresolved (lit ''my-bucket'')"
    by (simp_all add: lit_def isUnresolved_def)
  have h2: "propsPhysicalName ?named = Some (lit ''my-bucket'')
            \<and> lit ''my-bucket'' \<noteq> [] \<and> \<not> isUnresolved (lit ''my-bucket'')"
    using l u by simp
  have c2: "physicalNameState (Resource_constructor ?bucket ?named) = Explicit"
    by (rule constructor_physical_name_states [of ?named "lit ''my-bucket''" ?bucket,
          THEN conjunct2, THEN conjunct1, THEN mp, OF h2, THEN conjunct1])
  have h3: "propsPhysicalName ?unnamed = None
        \<or> (propsPhysicalName ?unnamed = Some [] \<and> isUnresolved [] \<and> \<not> isGeneratedWhenNeededMarker [])
        \<or> propsPhysicalName ?unnamed = Some []"
    by simp
  have c3: "physicalNameState (Resource_constructor ?bucket ?unnamed) = Unset"
    by (rule constructor_physical_name_states [of ?unnamed "[]" ?bucket,
          THEN conjunct2, THEN conjunct2, THEN mp, OF h3, THEN conjunct1])
  have tu: "isUnresolved ?n" and tm: "\<not> isGeneratedWhenNeededMarker ?n"
    by (simp_all add: lit_def isUnresolved_def isGeneratedWhenNeededMarker_def)
  have h4: "propsPhysicalName ?tokens = None
        \<or> (propsPhysicalName ?tokens = Some ?n \<and> isUnresolved ?n \<and> \<not> isGeneratedWhenNeededMarker ?n)
        \<or> propsPhysicalName ?tokens = Some []"
    using tu tm by simp
  have c4: "physicalNameState (Resource_constructor ?bucket ?tokens) = Unset"
    by (rule constructor_physical_name_states [of ?tokens ?n ?bucket,
          THEN conjunct2, THEN conjunct2, THEN mp, OF h4, THEN conjunct1])
  show ?thesis
    unfolding Let_def by (intro conjI) (rule m c1 l u c2 c3 tu tm c4)+
qed

theorem unset_cross_environment_fails_witness:
  "(let A = \<lparr>stackAccount = lit ''111'', stackRegion = lit ''eu-west-1'',
                environment = lit ''aws://111/eu-west-1''\<rparr>;
        B = \<lparr>stackAccount = lit ''222'', stackRegion = lit ''eu-west-1'',
                environment = lit ''aws://222/eu-west-1''\<rparr>;
        bucket = \<lparr>nodePath = ''App/A/Bucket'', stackOf = A\<rparr>;
        same = \<lparr>scope = \<lparr>nodePath = ''App/A/Fn'', stackOf = A\<rparr>\<rparr>;
        other = \<lparr>scope = \<lparr>nodePath = ''App/B/Fn'', stackOf = B\<rparr>\<rparr>;
        marker = \<lparr>propsPhysicalName = Some [Tok GENERATE_IF_NEEDED], propsAccount = None,
                  propsRegion = None\<rparr>;
        named = \<lparr>propsPhysicalName = Some (lit ''my-bucket''), propsAccount = None,
                 propsRegion = None\<rparr>;
        unnamed = \<lparr>propsPhysicalName = None, propsAccount = None, propsRegion = None\<rparr>;
        R = Resource_constructor bucket unnamed
    in physicalNameState R = Unset
       \<and> enableCrossEnvironment (Returned \<circ> lit \<circ> nodePath) R = (Thrown (crossEnvironmentError (nodePath R)), R)
       \<and> nodePath R = ''App/A/Bucket''
       \<and> environment (stack R) \<noteq> environment (stackOf (scope other))
       \<and> nameAttributeProduce (Returned \<circ> lit \<circ> nodePath) (lit ''Ref'') other R
           = (Thrown (crossEnvironmentError (nodePath R)), R))"
proof -
  let ?A = "\<lparr>stackAccount = lit ''111'', stackRegion = lit ''eu-west-1'',
                environment = lit ''aws://111/eu-west-1''\<rparr>"
  let ?B = "\<lparr>stackAccount = lit ''222'', stackRegion = lit ''eu-west-1'',
                environment = lit ''aws://222/eu-west-1''\<rparr>"
  let ?bucket = "\<lparr>nodePath = ''App/A/Bucket'', stackOf = ?A\<rparr>"
  let ?same = "\<lparr>scope = \<lparr>nodePath = ''App/A/Fn'', stackOf = ?A\<rparr>\<rparr>"
  let ?other = "\<lparr>scope = \<lparr>nodePath = ''App/B/Fn'', stackOf = ?B\<rparr>\<rparr>"
  let ?marker = "\<lparr>propsPhysicalName = Some [Tok GENERATE_IF_NEEDED], propsAccount = None,
                  propsRegion = None\<rparr>"
  let ?named = "\<lparr>propsPhysicalName = Some (lit ''my-bucket''), propsAccount = None,
                 propsRegion = None\<rparr>"
  let ?unnamed = "\<lparr>propsPhysicalName = None, propsAccount = None, propsRegion = None\<rparr>"
  let ?G = "Returned \<circ> lit \<circ> nodePath :: Resource \<Rightarrow> tstring outcome"
  let ?R = "Resource_constructor ?bucket ?unnamed"
  have h: "physicalNameState ?R = Unset"
    by (simp add: physicalNameState_def Resource_constructor_def Let_def andThen_def orDefault_def truthy_def lit_def isUnresolved_def isGeneratedWhenNeededMarker_def)
  have ho: "environment (stack ?R) \<noteq> environment (stackOf (scope ?other))"
    by (simp add: Resource_constructor_def Let_def lit_def)
  have np: "nodePath ?R = ''App/A/Bucket''"
    by (simp add: Resource_constructor_def Let_def)
  note t = unset_cross_environment_fails [of ?R ?G ?other "lit ''Ref''", THEN mp, OF h]
  have e: "enableCrossEnvironment ?G ?R = (Thrown (crossEnvironmentError (nodePath ?R)), ?R)"
    by (rule t [THEN conjunct1])
  have x: "nameAttributeProduce ?G (lit ''Ref'') ?other ?R
           = (Thrown (crossEnvironmentError (nodePath ?R)), ?R)"
    by (rule t [THEN conjunct2, THEN conjunct2, THEN mp, OF ho, THEN conjunct1])
  show ?thesis
    unfolding Let_def by (intro conjI) (rule h e np ho x)+
qed

theorem generated_name_once_witness:
  "(let A = \<lparr>stackAccount = lit ''111'', stackRegion = lit ''eu-west-1'',
                environment = lit ''aws://111/eu-west-1''\<rparr>;
        B = \<lparr>stackAccount = lit ''222'', stackRegion = lit ''eu-west-1'',
                environment = lit ''aws://222/eu-west-1''\<rparr>;
        bucket = \<lparr>nodePath = ''App/A/Bucket'', stackOf = A\<rparr>;
        same = \<lparr>scope = \<lparr>nodePath = ''App/A/Fn'', stackOf = A\<rparr>\<rparr>;
        other = \<lparr>scope = \<lparr>nodePath = ''App/B/Fn'', stackOf = B\<rparr>\<rparr>;
        marker = \<lparr>propsPhysicalName = Some [Tok GENERATE_IF_NEEDED], propsAccount = None,
                  propsRegion = None\<rparr>;
        named = \<lparr>propsPhysicalName = Some (lit ''my-bucket''), propsAccount = None,
                 propsRegion = None\<rparr>;
        unnamed = \<lparr>propsPhysicalName = None, propsAccount = None, propsRegion = None\<rparr>;
        r0 = Resource_constructor bucket marker;
        r1 = r0\<lparr>privPhysicalName := Some (lit ''App/A/Bucket'')\<rparr>
    in isGeneratedWhenNeededMarker [Tok GENERATE_IF_NEEDED]
       \<and> (Returned \<circ> lit \<circ> nodePath) r0 = Returned (lit ''App/A/Bucket'')
       \<and> lit ''App/A/Bucket'' \<noteq> []
       \<and> physicalNameState r0 = DeferredIfNeeded
       \<and> enableCrossEnvironment (Returned \<circ> lit \<circ> nodePath) r0 = (Returned (), r1)
       \<and> producePhysicalName r1 = Some (lit ''App/A/Bucket'')
       \<and> physicalNameState r1 = Generated
       \<and> enableCrossEnvironment (Thrown \<circ> nodePath) r1 = (Returned (), r1))"
proof -
  let ?A = "\<lparr>stackAccount = lit ''111'', stackRegion = lit ''eu-west-1'',
                environment = lit ''aws://111/eu-west-1''\<rparr>"
  let ?B = "\<lparr>stackAccount = lit ''222'', stackRegion = lit ''eu-west-1'',
                environment = lit ''aws://222/eu-west-1''\<rparr>"
  let ?bucket = "\<lparr>nodePath = ''App/A/Bucket'', stackOf = ?A\<rparr>"
  let ?same = "\<lparr>scope = \<lparr>nodePath = ''App/A/Fn'', stackOf = ?A\<rparr>\<rparr>"
  let ?other = "\<lparr>scope = \<lparr>nodePath = ''App/B/Fn'', stackOf = ?B\<rparr>\<rparr>"
  let ?marker = "\<lparr>propsPhysicalName = Some [Tok GENERATE_IF_NEEDED], propsAccount = None,
                  propsRegion = None\<rparr>"
  let ?named = "\<lparr>propsPhysicalName = Some (lit ''my-bucket''), propsAccount = None,
                 propsRegion = None\<rparr>"
  let ?unnamed = "\<lparr>propsPhysicalName = None, propsAccount = None, propsRegion = None\<rparr>"
  let ?G = "Returned \<circ> lit \<circ> nodePath :: Resource \<Rightarrow> tstring outcome"
  let ?r0 = "Resource_constructor ?bucket ?marker"
  let ?name = "lit ''App/A/Bucket''"
  let ?r1 = "?r0\<lparr>privPhysicalName := Some ?name\<rparr>"
  let ?later = "Thrown \<circ> nodePath :: Resource \<Rightarrow> tstring outcome"
  have m: "isGeneratedWhenNeededMarker [Tok GENERATE_IF_NEEDED]"
    by (simp add: isGeneratedWhenNeededMarker_def)
  have h: "propsPhysicalName ?marker = Some [Tok GENERATE_IF_NEEDED]
            \<and> isGeneratedWhenNeededMarker [Tok GENERATE_IF_NEEDED]"
    using m by simp
  have g: "?G ?r0 = Returned ?name"
    by (simp add: Resource_constructor_def Let_def)
  have ne: "?name \<noteq> []"
    by (simp add: lit_def)
  note t = generated_name_once [of ?marker "[Tok GENERATE_IF_NEEDED]" ?bucket ?name ?G _ _ _
      ?later, THEN mp, OF h, unfolded Let_def]
  have s0: "physicalNameState ?r0 = DeferredIfNeeded"
    by (rule t [THEN conjunct1])
  note first = t [THEN conjunct2, THEN conjunct2, THEN conjunct1, THEN mp, OF g]
  note after = t [THEN conjunct2, THEN conjunct2, THEN conjunct2, THEN mp, OF ne]
  have e0: "enableCrossEnvironment ?G ?r0 = (Returned (), ?r1)"
    by (rule first [THEN conjunct1])
  have p: "producePhysicalName ?r1 = Some ?name"
    by (rule first [THEN conjunct2, THEN conjunct2])
  have s1: "physicalNameState ?r1 = Generated"
    by (rule after [THEN conjunct1])
  have e1: "enableCrossEnvironment ?later ?r1 = (Returned (), ?r1)"
    by (rule after [THEN conjunct2, THEN conjunct1])
  show ?thesis
    unfolding Let_def by (intro conjI) (rule m g ne s0 e0 p s1 e1)+
qed

theorem name_attribute_not_memoized_witness:
  "(let A = \<lparr>stackAccount = lit ''111'', stackRegion = lit ''eu-west-1'',
                environment = lit ''aws://111/eu-west-1''\<rparr>;
        B = \<lparr>stackAccount = lit ''222'', stackRegion = lit ''eu-west-1'',
                environment = lit ''aws://222/eu-west-1''\<rparr>;
        bucket = \<lparr>nodePath = ''App/A/Bucket'', stackOf = A\<rparr>;
        same = \<lparr>scope = \<lparr>nodePath = ''App/A/Fn'', stackOf = A\<rparr>\<rparr>;
        other = \<lparr>scope = \<lparr>nodePath = ''App/B/Fn'', stackOf = B\<rparr>\<rparr>;
        marker = \<lparr>propsPhysicalName = Some [Tok GENERATE_IF_NEEDED], propsAccount = None,
                  propsRegion = None\<rparr>;
        named = \<lparr>propsPhysicalName = Some (lit ''my-bucket''), propsAccount = None,
                 propsRegion = None\<rparr>;
        unnamed = \<lparr>propsPhysicalName = None, propsAccount = None, propsRegion = None\<rparr>;
        R = Resource_constructor bucket named
    in environment (stack R) = environment (stackOf (scope same))
       \<and> environment (stack R) \<noteq> environment (stackOf (scope other))
       \<and> fst (enableCrossEnvironment (Returned \<circ> lit \<circ> nodePath) R) = Returned ()
       \<and> Lazy_resolve (nameAttributeProduce (Returned \<circ> lit \<circ> nodePath) (lit ''Ref'')) same R
           = (Returned (lit ''Ref''), R)
       \<and> fst (Lazy_resolve (nameAttributeProduce (Returned \<circ> lit \<circ> nodePath) (lit ''Ref'')) other R)
           = Returned (lit ''my-bucket''))"
proof -
  let ?A = "\<lparr>stackAccount = lit ''111'', stackRegion = lit ''eu-west-1'',
                environment = lit ''aws://111/eu-west-1''\<rparr>"
  let ?B = "\<lparr>stackAccount = lit ''222'', stackRegion = lit ''eu-west-1'',
                environment = lit ''aws://222/eu-west-1''\<rparr>"
  let ?bucket = "\<lparr>nodePath = ''App/A/Bucket'', stackOf = ?A\<rparr>"
  let ?same = "\<lparr>scope = \<lparr>nodePath = ''App/A/Fn'', stackOf = ?A\<rparr>\<rparr>"
  let ?other = "\<lparr>scope = \<lparr>nodePath = ''App/B/Fn'', stackOf = ?B\<rparr>\<rparr>"
  let ?marker = "\<lparr>propsPhysicalName = Some [Tok GENERATE_IF_NEEDED], propsAccount = None,
                  propsRegion = None\<rparr>"
  let ?named = "\<lparr>propsPhysicalName = Some (lit ''my-bucket''), propsAccount = None,
                 propsRegion = None\<rparr>"
  let ?unnamed = "\<lparr>propsPhysicalName = None, propsAccount = None, propsRegion = None\<rparr>"
  let ?G = "Returned \<circ> lit \<circ> nodePath :: Resource \<Rightarrow> tstring outcome"
  let ?R = "Resource_constructor ?bucket ?named"
  have hs: "environment (stack ?R) = environment (stackOf (scope ?same))"
    by (simp add: Resource_constructor_def Let_def)
  have ho: "environment (stack ?R) \<noteq> environment (stackOf (scope ?other))"
    by (simp add: Resource_constructor_def Let_def lit_def)
  have e: "fst (enableCrossEnvironment ?G ?R) = Returned ()"
    by (simp add: enableCrossEnvironment_def Resource_constructor_def Let_def andThen_def orDefault_def truthy_def lit_def isUnresolved_def isGeneratedWhenNeededMarker_def)
  have p: "physicalName ?R = lit ''my-bucket''"
    by (simp add: Resource_constructor_def Let_def andThen_def orDefault_def truthy_def lit_def isUnresolved_def isGeneratedWhenNeededMarker_def)
  have h: "environment (stack ?R) = environment (stackOf (scope ?same))
     \<and> environment (stack ?R) \<noteq> environment (stackOf (scope ?other))"
    using hs ho by (intro conjI)
  note t = name_attribute_not_memoized [of ?R ?same ?other ?G "lit ''Ref''", THEN mp, OF h]
  have s: "Lazy_resolve (nameAttributeProduce ?G (lit ''Ref'')) ?same ?R
             = (Returned (lit ''Ref''), ?R)"
    by (rule t [THEN conjunct1])
  have o: "fst (Lazy_resolve (nameAttributeProduce ?G (lit ''Ref'')) ?other ?R)
             = Returned (lit ''my-bucket'')"
    using t [THEN conjunct2, THEN conjunct1, THEN mp, OF e] p by simp
  show ?thesis
    unfolding Let_def by (intro conjI) (rule hs ho e s o)+
qed

theorem constructor_accepts_conflicting_name_witness:
  "(let A = \<lparr>stackAccount = lit ''111'', stackRegion = lit ''eu-west-1'',
                environment = lit ''aws://111/eu-west-1''\<rparr>;
        B = \<lparr>stackAccount = lit ''222'', stackRegion = lit ''eu-west-1'',
                environment = lit ''aws://222/eu-west-1''\<rparr>;
        bucket = \<lparr>nodePath = ''App/A/Bucket'', stackOf = A\<rparr>;
        same = \<lparr>scope = \<lparr>nodePath = ''App/A/Fn'', stackOf = A\<rparr>\<rparr>;
        other = \<lparr>scope = \<lparr>nodePath = ''App/B/Fn'', stackOf = B\<rparr>\<rparr>;
        marker = \<lparr>propsPhysicalName = Some [Tok GENERATE_IF_NEEDED], propsAccount = None,
                  propsRegion = None\<rparr>;
        named = \<lparr>propsPhysicalName = Some (lit ''my-bucket''), propsAccount = None,
                 propsRegion = None\<rparr>;
        unnamed = \<lparr>propsPhysicalName = None, propsAccount = None, propsRegion = None\<rparr>;
        n = lit ''my-bucket'' @ [Tok GENERATE_IF_NEEDED];
        R = Resource_constructor bucket
              \<lparr>propsPhysicalName = Some n, propsAccount = None, propsRegion = None\<rparr>
    in spec_conflictingPhysicalName n
       \<and> fst (enableCrossEnvironment (Returned \<circ> lit \<circ> nodePath) R) = Thrown (crossEnvironmentError ''App/A/Bucket'')
       \<and> snd (enableCrossEnvironment (Returned \<circ> lit \<circ> nodePath) R) = R)"
proof -
  let ?A = "\<lparr>stackAccount = lit ''111'', stackRegion = lit ''eu-west-1'',
                environment = lit ''aws://111/eu-west-1''\<rparr>"
  let ?B = "\<lparr>stackAccount = lit ''222'', stackRegion = lit ''eu-west-1'',
                environment = lit ''aws://222/eu-west-1''\<rparr>"
  let ?bucket = "\<lparr>nodePath = ''App/A/Bucket'', stackOf = ?A\<rparr>"
  let ?same = "\<lparr>scope = \<lparr>nodePath = ''App/A/Fn'', stackOf = ?A\<rparr>\<rparr>"
  let ?other = "\<lparr>scope = \<lparr>nodePath = ''App/B/Fn'', stackOf = ?B\<rparr>\<rparr>"
  let ?marker = "\<lparr>propsPhysicalName = Some [Tok GENERATE_IF_NEEDED], propsAccount = None,
                  propsRegion = None\<rparr>"
  let ?named = "\<lparr>propsPhysicalName = Some (lit ''my-bucket''), propsAccount = None,
                 propsRegion = None\<rparr>"
  let ?unnamed = "\<lparr>propsPhysicalName = None, propsAccount = None, propsRegion = None\<rparr>"
  let ?G = "Returned \<circ> lit \<circ> nodePath :: Resource \<Rightarrow> tstring outcome"
  let ?n = "lit ''my-bucket'' @ [Tok GENERATE_IF_NEEDED]"
  let ?props = "\<lparr>propsPhysicalName = Some ?n, propsAccount = None, propsRegion = None\<rparr>"
  have c: "spec_conflictingPhysicalName ?n"
    by (simp add: spec_conflictingPhysicalName_def lit_def)
  have h: "spec_conflictingPhysicalName ?n \<and> propsPhysicalName ?props = Some ?n"
    using c by simp
  note t = constructor_accepts_conflicting_name [of ?n ?props ?bucket ?G, THEN mp, OF h,
      THEN conjunct2]
  show ?thesis
    unfolding Let_def using c t by simp
qed

theorem environment_frame_witness:
  "(let A = \<lparr>stackAccount = lit ''111'', stackRegion = lit ''eu-west-1'',
                environment = lit ''aws://111/eu-west-1''\<rparr>;
        B = \<lparr>stackAccount = lit ''222'', stackRegion = lit ''eu-west-1'',
                environment = lit ''aws://222/eu-west-1''\<rparr>;
        bucket = \<lparr>nodePath = ''App/A/Bucket'', stackOf = A\<rparr>;
        same = \<lparr>scope = \<lparr>nodePath = ''App/A/Fn'', stackOf = A\<rparr>\<rparr>;
        other = \<lparr>scope = \<lparr>nodePath = ''App/B/Fn'', stackOf = B\<rparr>\<rparr>;
        marker = \<lparr>propsPhysicalName = Some [Tok GENERATE_IF_NEEDED], propsAccount = None,
                  propsRegion = None\<rparr>;
        named = \<lparr>propsPhysicalName = Some (lit ''my-bucket''), propsAccount = None,
                 propsRegion = None\<rparr>;
        unnamed = \<lparr>propsPhysicalName = None, propsAccount = None, propsRegion = None\<rparr>;
        imported = \<lparr>propsPhysicalName = None, propsAccount = Some (lit ''999''),
                    propsRegion = None\<rparr>;
        R = Resource_constructor bucket marker
    in env (Resource_constructor bucket imported)
         = \<lparr>account = lit ''999'', region = lit ''eu-west-1''\<rparr>
       \<and> env (snd (enableCrossEnvironment (Returned \<circ> lit \<circ> nodePath) R)) = env R
       \<and> env (snd (nameAttributeProduce (Returned \<circ> lit \<circ> nodePath) (lit ''Ref'') other R)) = env R)"
proof -
  let ?A = "\<lparr>stackAccount = lit ''111'', stackRegion = lit ''eu-west-1'',
                environment = lit ''aws://111/eu-west-1''\<rparr>"
  let ?B = "\<lparr>stackAccount = lit ''222'', stackRegion = lit ''eu-west-1'',
                environment = lit ''aws://222/eu-west-1''\<rparr>"
  let ?bucket = "\<lparr>nodePath = ''App/A/Bucket'', stackOf = ?A\<rparr>"
  let ?same = "\<lparr>scope = \<lparr>nodePath = ''App/A/Fn'', stackOf = ?A\<rparr>\<rparr>"
  let ?other = "\<lparr>scope = \<lparr>nodePath = ''App/B/Fn'', stackOf = ?B\<rparr>\<rparr>"
  let ?marker = "\<lparr>propsPhysicalName = Some [Tok GENERATE_IF_NEEDED], propsAccount = None,
                  propsRegion = None\<rparr>"
  let ?named = "\<lparr>propsPhysicalName = Some (lit ''my-bucket''), propsAccount = None,
                 propsRegion = None\<rparr>"
  let ?unnamed = "\<lparr>propsPhysicalName = None, propsAccount = None, propsRegion = None\<rparr>"
  let ?G = "Returned \<circ> lit \<circ> nodePath :: Resource \<Rightarrow> tstring outcome"
  let ?imported = "\<lparr>propsPhysicalName = None, propsAccount = Some (lit ''999''),
                    propsRegion = None\<rparr>"
  let ?R = "Resource_constructor ?bucket ?marker"
  note t = environment_frame [of ?bucket ?imported ?G ?R "lit ''Ref''" ?other]
  have c: "env (Resource_constructor ?bucket ?imported)
         = \<lparr>account = lit ''999'', region = lit ''eu-west-1''\<rparr>"
    using t [THEN conjunct1] by simp
  note f = t [THEN conjunct2, THEN conjunct2, THEN conjunct2, THEN conjunct2]
  show ?thesis
    unfolding Let_def
    by (intro conjI) (rule c f [THEN conjunct1] f [THEN conjunct2, THEN conjunct1])+
qed

theorem constructor_empty_name_witness:
  "(let A = \<lparr>stackAccount = lit ''111'', stackRegion = lit ''eu-west-1'',
                environment = lit ''aws://111/eu-west-1''\<rparr>;
        B = \<lparr>stackAccount = lit ''222'', stackRegion = lit ''eu-west-1'',
                environment = lit ''aws://222/eu-west-1''\<rparr>;
        bucket = \<lparr>nodePath = ''App/A/Bucket'', stackOf = A\<rparr>;
        same = \<lparr>scope = \<lparr>nodePath = ''App/A/Fn'', stackOf = A\<rparr>\<rparr>;
        other = \<lparr>scope = \<lparr>nodePath = ''App/B/Fn'', stackOf = B\<rparr>\<rparr>;
        marker = \<lparr>propsPhysicalName = Some [Tok GENERATE_IF_NEEDED], propsAccount = None,
                  propsRegion = None\<rparr>;
        named = \<lparr>propsPhysicalName = Some (lit ''my-bucket''), propsAccount = None,
                 propsRegion = None\<rparr>;
        unnamed = \<lparr>propsPhysicalName = None, propsAccount = None, propsRegion = None\<rparr>;
        empty = \<lparr>propsPhysicalName = Some [], propsAccount = None, propsRegion = None\<rparr>
    in propsPhysicalName empty = Some []
       \<and> physicalName (Resource_constructor bucket empty) = []
       \<and> privPhysicalName (Resource_constructor bucket empty) = Some []
       \<and> physicalName (Resource_constructor bucket unnamed) = Token_asString_undefined
       \<and> \<not> allowCrossEnvironment (Resource_constructor bucket empty)
       \<and> fst (enableCrossEnvironment (Returned \<circ> lit \<circ> nodePath) (Resource_constructor bucket empty))
           = Thrown (crossEnvironmentError ''App/A/Bucket''))"
proof -
  let ?A = "\<lparr>stackAccount = lit ''111'', stackRegion = lit ''eu-west-1'',
                environment = lit ''aws://111/eu-west-1''\<rparr>"
  let ?B = "\<lparr>stackAccount = lit ''222'', stackRegion = lit ''eu-west-1'',
                environment = lit ''aws://222/eu-west-1''\<rparr>"
  let ?bucket = "\<lparr>nodePath = ''App/A/Bucket'', stackOf = ?A\<rparr>"
  let ?same = "\<lparr>scope = \<lparr>nodePath = ''App/A/Fn'', stackOf = ?A\<rparr>\<rparr>"
  let ?other = "\<lparr>scope = \<lparr>nodePath = ''App/B/Fn'', stackOf = ?B\<rparr>\<rparr>"
  let ?marker = "\<lparr>propsPhysicalName = Some [Tok GENERATE_IF_NEEDED], propsAccount = None,
                  propsRegion = None\<rparr>"
  let ?named = "\<lparr>propsPhysicalName = Some (lit ''my-bucket''), propsAccount = None,
                 propsRegion = None\<rparr>"
  let ?unnamed = "\<lparr>propsPhysicalName = None, propsAccount = None, propsRegion = None\<rparr>"
  let ?G = "Returned \<circ> lit \<circ> nodePath :: Resource \<Rightarrow> tstring outcome"
  let ?empty = "\<lparr>propsPhysicalName = Some [], propsAccount = None, propsRegion = None\<rparr>"
  have h: "propsPhysicalName ?empty = Some []"
    by simp
  note t = constructor_empty_name [of ?empty ?bucket ?G, THEN mp, OF h]
  have q: "?empty\<lparr>propsPhysicalName := None\<rparr> = ?unnamed"
    by simp
  have c1: "physicalName (Resource_constructor ?bucket ?empty) = []"
    by (subst t [THEN conjunct1]) simp
  have c2: "privPhysicalName (Resource_constructor ?bucket ?empty) = Some []"
    by (subst t [THEN conjunct1]) simp
  have c3: "physicalName (Resource_constructor ?bucket ?unnamed) = Token_asString_undefined"
    using t [THEN conjunct2, THEN conjunct1] unfolding q .
  have c4: "\<not> allowCrossEnvironment (Resource_constructor ?bucket ?empty)"
    by (rule t [THEN conjunct2, THEN conjunct2, THEN conjunct1])
  have c5: "fst (enableCrossEnvironment ?G (Resource_constructor ?bucket ?empty))
           = Thrown (crossEnvironmentError ''App/A/Bucket'')"
    using t [THEN conjunct2, THEN conjunct2, THEN conjunct2, THEN conjunct2] by simp
  show ?thesis
    unfolding Let_def by (intro conjI) (rule h c1 c2 c3 c4 c5)+
qed

end
